theory Spec2Isabelle
  imports Main "HOL-Library.AList" "HOL-Library.Sublist"
begin

section \<open>Data model (backend/models.py)\<close>

text \<open>The closed set of roles, \<^verbatim>\<open>class UserRole(str, Enum)\<close>, and the string each member
  carries (the string is what the document store holds).\<close>

datatype UserRole = ADMIN | TEACHER | STUDENT | PARENT | ACCOUNTANT | LIBRARIAN | RECEPTIONIST

fun UserRole_value :: "UserRole \<Rightarrow> string" where
  "UserRole_value ADMIN = ''admin''"
| "UserRole_value TEACHER = ''teacher''"
| "UserRole_value STUDENT = ''student''"
| "UserRole_value PARENT = ''parent''"
| "UserRole_value ACCOUNTANT = ''accountant''"
| "UserRole_value LIBRARIAN = ''librarian''"
| "UserRole_value RECEPTIONIST = ''receptionist''"

definition UserRole_of_value :: "string \<Rightarrow> UserRole option" where
  "UserRole_of_value s =
     (if s = ''admin'' then Some ADMIN
      else if s = ''teacher'' then Some TEACHER
      else if s = ''student'' then Some STUDENT
      else if s = ''parent'' then Some PARENT
      else if s = ''accountant'' then Some ACCOUNTANT
      else if s = ''librarian'' then Some LIBRARIAN
      else if s = ''receptionist'' then Some RECEPTIONIST
      else None)"

text \<open>An instant in time. Only its conversion to and from ISO text matters here, and that
  conversion belongs to the environment below.\<close>

type_synonym datetime = nat

text \<open>The values a field of a user or settings document takes: \<^verbatim>\<open>None\<close>, booleans, integers,
  strings, and (only in dictionaries held in memory) \<^verbatim>\<open>datetime\<close> objects. Nested arrays and
  sub-documents do not occur in these documents and are left out.\<close>

datatype pyval = PNone | PBool bool | PInt int | PStr string | PDatetime datetime

text \<open>A Python dictionary and a stored document: keys in insertion order.\<close>

type_synonym pydict = "(string \<times> pyval) list"

text \<open>The settings models come first so that the field names they share with the user
  models (\<^verbatim>\<open>address\<close>, \<^verbatim>\<open>phone\<close>, \<^verbatim>\<open>email\<close>, \<^verbatim>\<open>id\<close>, \<^verbatim>\<open>updated_at\<close>) denote, unqualified, the
  user fields; the settings fields are written with their record's name in front.
  \<^verbatim>\<open>SettingsCreate\<close> adds nothing to \<^verbatim>\<open>SettingsBase\<close>.\<close>

record SettingsBase =
  school_name :: string
  school_code :: "string option"
  address :: "string option"
  phone :: "string option"
  email :: "string option"
  website :: "string option"
  logo :: "string option"
  currency :: string
  currency_symbol :: string
  timezone :: string
  language :: string
  date_format :: string
  time_format :: string

type_synonym SettingsCreate = SettingsBase

record Settings = SettingsBase +
  id' :: string
  updated_at :: datetime

record UserBase =
  username :: string
  email :: string
  name :: string
  role :: UserRole
  phone :: "string option"
  address :: "string option"
  photo :: "string option"
  is_active :: bool

record UserCreate = UserBase +
  password :: string

record UserLogin =
  login_username :: string
  login_password :: string

record User = UserBase +
  id' :: string
  created_at :: datetime
  updated_at :: datetime

record UserInDB = User +
  password_hash :: string

record Token =
  access_token :: string
  token_type :: string
  user :: User

section \<open>Exceptions\<close>

text \<open>\<^verbatim>\<open>HTTPException(status_code, detail)\<close> is what the handlers raise on purpose. The other
  constructors are the exceptions a handler lets escape; the framework answers those with
  status 500.\<close>

datatype exn =
    HTTPException nat string
  | ValidationError | KeyError string | TypeError | ValueError | AttributeError

fun status_code :: "exn \<Rightarrow> nat" where
  "status_code (HTTPException c d) = c"
| "status_code e = 500"

section \<open>Environment: auth.py, the clock, identifiers, field validators\<close>

text \<open>The four functions imported from \<^verbatim>\<open>auth\<close> (password hashing and the token codec), the
  ISO conversions of \<^verbatim>\<open>datetime\<close>, and the values the default factories \<^verbatim>\<open>uuid.uuid4()\<close> and
  \<^verbatim>\<open>datetime.now(timezone.utc)\<close> produce for the request at hand. Three more belong to the
  validation library: \<^verbatim>\<open>EmailStr\<close> checks an address and returns it in normal form
  (\<open>validate_email\<close>, \<open>None\<close> for a rejected address); a \<^verbatim>\<open>bool\<close> field takes a value that is
  not a bool through a table of numbers and words (\<open>coerce_bool\<close>); a \<^verbatim>\<open>datetime\<close> field
  takes a value that is not a \<^verbatim>\<open>datetime\<close> as a timestamp or as text (\<open>coerce_datetime\<close>).
  All of them are parameters: every theorem holds for any choice.\<close>

record env =
  get_password_hash :: "string \<Rightarrow> string"
  verify_password :: "string \<Rightarrow> string \<Rightarrow> bool"
  create_access_token :: "pydict \<Rightarrow> string"
  decode_access_token :: "string \<Rightarrow> pydict option"
  fromisoformat :: "string \<Rightarrow> datetime option"
  isoformat :: "datetime \<Rightarrow> string"
  validate_email :: "string \<Rightarrow> string option"
  coerce_bool :: "pyval \<Rightarrow> bool option"
  coerce_datetime :: "pyval \<Rightarrow> datetime option"
  uuid4 :: string
  utcnow :: datetime

section \<open>The document store\<close>

text \<open>A collection is the list of its documents in insertion order. The store-assigned
  \<^verbatim>\<open>_id\<close> is projected out by every read that builds a response, so documents are kept
  without it. Field names are flat top-level names.\<close>

record database =
  users :: "pydict list"
  settings :: "pydict list"

text \<open>An equality filter \<^verbatim>\<open>{k1: v1, ...}\<close> selects the documents holding every given value.\<close>

definition matches :: "pydict \<Rightarrow> pydict \<Rightarrow> bool" where
  "matches query doc = list_all (\<lambda>(k, v). map_of doc k = Some v) query"

text \<open>A projection \<^verbatim>\<open>{k: 0, ...}\<close> drops the named fields.\<close>

definition exclude :: "string list \<Rightarrow> pydict \<Rightarrow> pydict" where
  "exclude ks doc = filter (\<lambda>(k, v). k \<notin> set ks) doc"

definition find_one :: "pydict list \<Rightarrow> pydict \<Rightarrow> string list \<Rightarrow> pydict option" where
  "find_one coll query proj = map_option (exclude proj) (find (matches query) coll)"

definition find_many :: "pydict list \<Rightarrow> pydict \<Rightarrow> string list \<Rightarrow> pydict list" where
  "find_many coll query proj = map (exclude proj) (filter (matches query) coll)"

definition insert_one :: "pydict list \<Rightarrow> pydict \<Rightarrow> pydict list" where
  "insert_one coll doc = coll @ [doc]"

text \<open>\<^verbatim>\<open>{"$set": updates}\<close>: every given field is overwritten in place or appended.\<close>

definition set_fields :: "pydict \<Rightarrow> pydict \<Rightarrow> pydict" where
  "set_fields updates doc = fold (\<lambda>(k, v). AList.update k v) updates doc"

text \<open>\<^verbatim>\<open>update_one\<close> changes the first matching document and reports \<^verbatim>\<open>matched_count\<close>.\<close>

fun update_one :: "pydict list \<Rightarrow> pydict \<Rightarrow> pydict \<Rightarrow> nat \<times> pydict list" where
  "update_one [] query updates = (0, [])"
| "update_one (d # ds) query updates =
     (if matches query d then (1, set_fields updates d # ds)
      else (case update_one ds query updates of (n, ds') \<Rightarrow> (n, d # ds')))"

text \<open>\<^verbatim>\<open>delete_one\<close> removes the first matching document and reports \<^verbatim>\<open>deleted_count\<close>.\<close>

fun delete_one :: "pydict list \<Rightarrow> pydict \<Rightarrow> nat \<times> pydict list" where
  "delete_one [] query = (0, [])"
| "delete_one (d # ds) query =
     (if matches query d then (1, ds)
      else (case delete_one ds query of (n, ds') \<Rightarrow> (n, d # ds')))"

section \<open>Python truthiness\<close>

fun truthy :: "pyval \<Rightarrow> bool" where
  "truthy PNone = False"
| "truthy (PBool b) = b"
| "truthy (PInt n) = (n \<noteq> 0)"
| "truthy (PStr s) = (s \<noteq> [])"
| "truthy (PDatetime t) = True"

text \<open>\<^verbatim>\<open>if doc:\<close> on the result of \<^verbatim>\<open>find_one\<close>: \<^verbatim>\<open>None\<close> and the empty dictionary are false.\<close>

fun truthy_doc :: "pydict option \<Rightarrow> bool" where
  "truthy_doc None = False"
| "truthy_doc (Some d) = (d \<noteq> [])"

section \<open>Building a \<^verbatim>\<open>User\<close> from keyword arguments\<close>

text \<open>One validator for each declared field type. A \<^verbatim>\<open>str\<close> field takes a string and nothing
  else, an optional one also \<^verbatim>\<open>None\<close>, a \<^verbatim>\<open>UserRole\<close> field one of the seven role strings; an
  \<^verbatim>\<open>EmailStr\<close> field takes a string the e-mail check accepts and holds the normal form it
  returns; a \<^verbatim>\<open>bool\<close> field takes a bool as it is and a \<^verbatim>\<open>datetime\<close> field a \<^verbatim>\<open>datetime\<close> as it
  is, and either hands any other value to the library's coercion. A rejected value is a
  \<^verbatim>\<open>ValidationError\<close>.\<close>

fun str_required :: "pyval option \<Rightarrow> string option" where
  "str_required (Some (PStr s)) = Some s"
| "str_required v = None"

fun email_required :: "env \<Rightarrow> pyval option \<Rightarrow> string option" where
  "email_required E (Some (PStr s)) = validate_email E s"
| "email_required E v = None"

fun role_required :: "pyval option \<Rightarrow> UserRole option" where
  "role_required (Some (PStr s)) = UserRole_of_value s"
| "role_required v = None"

fun str_optional :: "pyval option \<Rightarrow> string option option" where
  "str_optional None = Some None"
| "str_optional (Some PNone) = Some None"
| "str_optional (Some (PStr s)) = Some (Some s)"
| "str_optional v = None"

fun bool_default :: "env \<Rightarrow> bool \<Rightarrow> pyval option \<Rightarrow> bool option" where
  "bool_default E b None = Some b"
| "bool_default E b (Some (PBool x)) = Some x"
| "bool_default E b (Some v) = coerce_bool E v"

fun str_default :: "string \<Rightarrow> pyval option \<Rightarrow> string option" where
  "str_default s None = Some s"
| "str_default s (Some (PStr x)) = Some x"
| "str_default s v = None"

fun datetime_default :: "env \<Rightarrow> datetime \<Rightarrow> pyval option \<Rightarrow> datetime option" where
  "datetime_default E t None = Some t"
| "datetime_default E t (Some (PDatetime x)) = Some x"
| "datetime_default E t (Some v) = coerce_datetime E v"

text \<open>\<^verbatim>\<open>User(**kw)\<close> with \<^verbatim>\<open>extra="ignore"\<close>: the eleven declared fields are read, every other
  key is dropped.\<close>

fun validated :: "'a option \<Rightarrow> ('a \<Rightarrow> exn + 'b) \<Rightarrow> exn + 'b" where
  "validated None k = Inl ValidationError"
| "validated (Some x) k = k x"

definition User_of :: "env \<Rightarrow> pydict \<Rightarrow> exn + User" where
  "User_of E kw =
     validated (str_required (map_of kw ''username'')) (\<lambda>f_username.
     validated (email_required E (map_of kw ''email'')) (\<lambda>f_email.
     validated (str_required (map_of kw ''name'')) (\<lambda>f_name.
     validated (role_required (map_of kw ''role'')) (\<lambda>f_role.
     validated (str_optional (map_of kw ''phone'')) (\<lambda>f_phone.
     validated (str_optional (map_of kw ''address'')) (\<lambda>f_address.
     validated (str_optional (map_of kw ''photo'')) (\<lambda>f_photo.
     validated (bool_default E True (map_of kw ''is_active'')) (\<lambda>f_active.
     validated (str_default (uuid4 E) (map_of kw ''id'')) (\<lambda>f_id.
     validated (datetime_default E (utcnow E) (map_of kw ''created_at'')) (\<lambda>f_created.
     validated (datetime_default E (utcnow E) (map_of kw ''updated_at'')) (\<lambda>f_updated.
     Inr \<lparr> username = f_username, email = f_email, name = f_name, role = f_role,
           phone = f_phone, address = f_address, photo = f_photo, is_active = f_active,
           id' = f_id, created_at = f_created, updated_at = f_updated \<rparr>)))))))))))"

text \<open>The handlers' recurring step
  \<^verbatim>\<open>if isinstance(d.get(k), str): d[k] = datetime.fromisoformat(d[k])\<close>;
  \<^verbatim>\<open>fromisoformat\<close> raises \<^verbatim>\<open>ValueError\<close> on text it cannot read.\<close>

definition parse_timestamp :: "env \<Rightarrow> string \<Rightarrow> pydict \<Rightarrow> exn + pydict" where
  "parse_timestamp E k d =
     (case map_of d k of
        Some (PStr s) \<Rightarrow>
          (case fromisoformat E s of
             None \<Rightarrow> Inl ValueError
           | Some t \<Rightarrow> Inr (AList.update k (PDatetime t) d))
      | _ \<Rightarrow> Inr d)"

text \<open>The conversion applied to \<^verbatim>\<open>created_at\<close>, then to \<^verbatim>\<open>updated_at\<close>.\<close>

definition parse_timestamps :: "env \<Rightarrow> pydict \<Rightarrow> exn + pydict" where
  "parse_timestamps E d =
     (case parse_timestamp E ''created_at'' d of
        Inl e \<Rightarrow> Inl e
      | Inr d1 \<Rightarrow> parse_timestamp E ''updated_at'' d1)"

text \<open>Both timestamps converted, then \<^verbatim>\<open>User(**d)\<close>: the tail shared by the handlers that
  answer with a user read through a projection.\<close>

definition load_User :: "env \<Rightarrow> pydict \<Rightarrow> exn + User" where
  "load_User E d =
     (case parse_timestamps E d of
        Inl e \<Rightarrow> Inl e
      | Inr d2 \<Rightarrow> User_of E d2)"

section \<open>Authentication helpers (backend/server.py)\<close>

definition get_current_user :: "env \<Rightarrow> database \<Rightarrow> string \<Rightarrow> exn + User" where
  "get_current_user E db token =
     (case decode_access_token E token of
        None \<Rightarrow> Inl (HTTPException 401 ''Invalid authentication credentials'')
      | Some payload \<Rightarrow>
          (case map_of payload ''sub'' of
             None \<Rightarrow> Inl (HTTPException 401 ''Invalid authentication credentials'')
           | Some PNone \<Rightarrow> Inl (HTTPException 401 ''Invalid authentication credentials'')
           | Some sub \<Rightarrow>
               (case find_one (users db) [(''username'', sub)] [''_id'', ''password_hash''] of
                  None \<Rightarrow> Inl (HTTPException 401 ''User not found'')
                | Some u \<Rightarrow> load_User E u)))"

definition role_checker :: "UserRole list \<Rightarrow> User \<Rightarrow> exn + User" where
  "role_checker allowed_roles current_user =
     (if role current_user \<notin> set allowed_roles
      then Inl (HTTPException 403 ''Not enough permissions'')
      else Inr current_user)"

text \<open>\<^verbatim>\<open>Depends(require_role(allowed_roles))\<close>: resolve the identity, then check its role.\<close>

definition require_role :: "UserRole list \<Rightarrow> env \<Rightarrow> database \<Rightarrow> string \<Rightarrow> exn + User" where
  "require_role allowed_roles E db token =
     (case get_current_user E db token of
        Inl e \<Rightarrow> Inl e
      | Inr current_user \<Rightarrow> role_checker allowed_roles current_user)"

section \<open>Authentication routes\<close>

text \<open>\<^verbatim>\<open>UserInDB(**user_create.model_dump(exclude={'password'}), password_hash=...)\<close>: the
  request's fields, a fresh id and the current instant for both timestamps. The request
  has passed validation already, so building the model from its own fields cannot fail.\<close>

definition new_UserInDB :: "env \<Rightarrow> UserCreate \<Rightarrow> string \<Rightarrow> UserInDB" where
  "new_UserInDB E user_create hash =
     \<lparr> username = username user_create, email = email user_create,
       name = name user_create, role = role user_create,
       phone = phone user_create, address = address user_create,
       photo = photo user_create, is_active = is_active user_create,
       id' = uuid4 E, created_at = utcnow E, updated_at = utcnow E,
       password_hash = hash \<rparr>"

fun opt_str :: "string option \<Rightarrow> pyval" where
  "opt_str None = PNone"
| "opt_str (Some s) = PStr s"

text \<open>\<^verbatim>\<open>model_dump()\<close> of a \<^verbatim>\<open>UserInDB\<close> with both timestamps replaced by their ISO text: the
  document \<^verbatim>\<open>register\<close> inserts.\<close>

definition UserInDB_doc :: "env \<Rightarrow> UserInDB \<Rightarrow> pydict" where
  "UserInDB_doc E u =
     [(''username'', PStr (username u)), (''email'', PStr (email u)),
      (''name'', PStr (name u)), (''role'', PStr (UserRole_value (role u))),
      (''phone'', opt_str (phone u)), (''address'', opt_str (address u)),
      (''photo'', opt_str (photo u)), (''is_active'', PBool (is_active u)),
      (''id'', PStr (id' u)), (''created_at'', PStr (isoformat E (created_at u))),
      (''updated_at'', PStr (isoformat E (updated_at u))),
      (''password_hash'', PStr (password_hash u))]"

text \<open>\<^verbatim>\<open>User(**user_obj.model_dump(exclude={'password_hash'}))\<close>: the same fields without
  the extension field.\<close>

definition public_User :: "UserInDB \<Rightarrow> User" where
  "public_User u = User.truncate u"

definition register :: "env \<Rightarrow> database \<Rightarrow> UserCreate \<Rightarrow> database \<times> (exn + User)" where
  "register E db user_create =
     (if truthy_doc (find_one (users db) [(''username'', PStr (username user_create))] [])
      then (db, Inl (HTTPException 400 ''Username already registered''))
      else if truthy_doc (find_one (users db) [(''email'', PStr (email user_create))] [])
      then (db, Inl (HTTPException 400 ''Email already registered''))
      else
        (let hash = get_password_hash E (password user_create);
             user_obj = new_UserInDB E user_create hash;
             doc = UserInDB_doc E user_obj
         in (db\<lparr>users := insert_one (users db) doc\<rparr>, Inr (public_User user_obj))))"

text \<open>\<^verbatim>\<open>user_doc.get("is_active", True)\<close>.\<close>

definition get_or :: "pydict \<Rightarrow> string \<Rightarrow> pyval \<Rightarrow> pyval" where
  "get_or d k dflt = (case map_of d k of None \<Rightarrow> dflt | Some v \<Rightarrow> v)"

text \<open>The part of \<^verbatim>\<open>login\<close> after both guards: issue the token, convert the timestamps,
  build the \<^verbatim>\<open>User\<close> from every item but \<^verbatim>\<open>password_hash\<close>.\<close>

definition login_respond :: "env \<Rightarrow> pydict \<Rightarrow> exn + Token" where
  "login_respond E user_doc =
     (case map_of user_doc ''username'' of
        None \<Rightarrow> Inl (KeyError ''username'')
      | Some sub \<Rightarrow>
          (let tok = create_access_token E [(''sub'', sub)] in
           (case parse_timestamps E user_doc of
              Inl e \<Rightarrow> Inl e
            | Inr d \<Rightarrow>
                (case User_of E (filter (\<lambda>(k, v). k \<noteq> ''password_hash'') d) of
                   Inl e \<Rightarrow> Inl e
                 | Inr u \<Rightarrow> Inr \<lparr> access_token = tok, token_type = ''bearer'', user = u \<rparr>))))"

definition login :: "env \<Rightarrow> database \<Rightarrow> UserLogin \<Rightarrow> exn + Token" where
  "login E db user_login =
     (case find_one (users db) [(''username'', PStr (login_username user_login))] [''_id''] of
        None \<Rightarrow> Inl (HTTPException 401 ''Incorrect username or password'')
      | Some user_doc \<Rightarrow>
          (if user_doc = [] then Inl (HTTPException 401 ''Incorrect username or password'')
           else
             (case map_of user_doc ''password_hash'' of
                None \<Rightarrow> Inl (KeyError ''password_hash'')
              | Some (PStr hash) \<Rightarrow>
                  (if \<not> verify_password E (login_password user_login) hash
                   then Inl (HTTPException 401 ''Incorrect username or password'')
                   else if \<not> truthy (get_or user_doc ''is_active'' (PBool True))
                   then Inl (HTTPException 403 ''User account is inactive'')
                   else login_respond E user_doc)
              | Some other \<Rightarrow> Inl TypeError)))"

definition get_me :: "env \<Rightarrow> database \<Rightarrow> string \<Rightarrow> exn + User" where
  "get_me E db token = get_current_user E db token"

section \<open>User management routes\<close>

text \<open>A list built element by element; the first exception ends it.\<close>

fun for_each :: "('a \<Rightarrow> exn + 'b) \<Rightarrow> 'a list \<Rightarrow> exn + 'b list" where
  "for_each f [] = Inr []"
| "for_each f (x # xs) =
     (case f x of
        Inl e \<Rightarrow> Inl e
      | Inr y \<Rightarrow> (case for_each f xs of Inl e \<Rightarrow> Inl e | Inr ys \<Rightarrow> Inr (y # ys)))"

definition get_users :: "env \<Rightarrow> database \<Rightarrow> string \<Rightarrow> UserRole option \<Rightarrow> exn + User list" where
  "get_users E db token role_param =
     (case require_role [ADMIN] E db token of
        Inl e \<Rightarrow> Inl e
      | Inr current_user \<Rightarrow>
          (let query = (case role_param of
                          None \<Rightarrow> []
                        | Some r \<Rightarrow> [(''role'', PStr (UserRole_value r))]);
               found = take 1000 (find_many (users db) query [''_id'', ''password_hash''])
           in (case for_each (parse_timestamps E) found of
                 Inl e \<Rightarrow> Inl e
               | Inr converted \<Rightarrow> for_each (User_of E) converted)))"

definition get_user :: "env \<Rightarrow> database \<Rightarrow> string \<Rightarrow> string \<Rightarrow> exn + User" where
  "get_user E db token user_id =
     (case get_current_user E db token of
        Inl e \<Rightarrow> Inl e
      | Inr current_user \<Rightarrow>
          (case find_one (users db) [(''id'', PStr user_id)] [''_id'', ''password_hash''] of
             None \<Rightarrow> Inl (HTTPException 404 ''User not found'')
           | Some u \<Rightarrow>
               (if u = [] then Inl (HTTPException 404 ''User not found'')
                else load_User E u)))"

text \<open>The payload as \<^verbatim>\<open>update_user\<close> hands it to the store: key \<^verbatim>\<open>password\<close> removed when
  present, \<^verbatim>\<open>updated_at\<close> set to the current instant.\<close>

definition prepare_updates :: "env \<Rightarrow> pydict \<Rightarrow> pydict" where
  "prepare_updates E updates =
     AList.update ''updated_at'' (PStr (isoformat E (utcnow E)))
       (if ''password'' \<in> fst ` set updates then AList.delete ''password'' updates else updates)"

definition update_user ::
    "env \<Rightarrow> database \<Rightarrow> string \<Rightarrow> string \<Rightarrow> pydict \<Rightarrow> database \<times> (exn + User)" where
  "update_user E db token user_id updates =
     (case get_current_user E db token of
        Inl e \<Rightarrow> (db, Inl e)
      | Inr current_user \<Rightarrow>
          (if id' current_user \<noteq> user_id \<and> role current_user \<noteq> ADMIN
           then (db, Inl (HTTPException 403 ''Not enough permissions''))
           else
             (case update_one (users db) [(''id'', PStr user_id)] (prepare_updates E updates) of
                (matched_count, users') \<Rightarrow>
                  (let db' = db\<lparr>users := users'\<rparr> in
                   if matched_count = 0 then (db', Inl (HTTPException 404 ''User not found''))
                   else
                     (case find_one users' [(''id'', PStr user_id)] [''_id'', ''password_hash''] of
                        None \<Rightarrow> (db', Inl AttributeError)
                      | Some u \<Rightarrow> (db', load_User E u))))))"

definition delete_user ::
    "env \<Rightarrow> database \<Rightarrow> string \<Rightarrow> string \<Rightarrow> database \<times> (exn + string)" where
  "delete_user E db token user_id =
     (case require_role [ADMIN] E db token of
        Inl e \<Rightarrow> (db, Inl e)
      | Inr current_user \<Rightarrow>
          (case delete_one (users db) [(''id'', PStr user_id)] of
             (deleted_count, users') \<Rightarrow>
               (if deleted_count = 0 then (db, Inl (HTTPException 404 ''User not found''))
                else (db\<lparr>users := users'\<rparr>, Inr ''User deleted successfully''))))"

section \<open>Settings routes\<close>

fun email_optional :: "env \<Rightarrow> pyval option \<Rightarrow> string option option" where
  "email_optional E None = Some None"
| "email_optional E (Some PNone) = Some None"
| "email_optional E (Some (PStr s)) = map_option Some (validate_email E s)"
| "email_optional E v = None"

text \<open>\<^verbatim>\<open>Settings(**kw)\<close> with \<^verbatim>\<open>extra="ignore"\<close>, defaults as \<^verbatim>\<open>SettingsBase\<close> declares them.\<close>

definition Settings_of :: "env \<Rightarrow> pydict \<Rightarrow> exn + Settings" where
  "Settings_of E kw =
     validated (str_required (map_of kw ''school_name'')) (\<lambda>f_school_name.
     validated (str_optional (map_of kw ''school_code'')) (\<lambda>f_school_code.
     validated (str_optional (map_of kw ''address'')) (\<lambda>f_address.
     validated (str_optional (map_of kw ''phone'')) (\<lambda>f_phone.
     validated (email_optional E (map_of kw ''email'')) (\<lambda>f_email.
     validated (str_optional (map_of kw ''website'')) (\<lambda>f_website.
     validated (str_optional (map_of kw ''logo'')) (\<lambda>f_logo.
     validated (str_default ''USD'' (map_of kw ''currency'')) (\<lambda>f_currency.
     validated (str_default ''$'' (map_of kw ''currency_symbol'')) (\<lambda>f_symbol.
     validated (str_default ''UTC'' (map_of kw ''timezone'')) (\<lambda>f_timezone.
     validated (str_default ''en'' (map_of kw ''language'')) (\<lambda>f_language.
     validated (str_default ''YYYY-MM-DD'' (map_of kw ''date_format'')) (\<lambda>f_date_format.
     validated (str_default ''HH:mm'' (map_of kw ''time_format'')) (\<lambda>f_time_format.
     validated (str_default (uuid4 E) (map_of kw ''id'')) (\<lambda>f_id.
     validated (datetime_default E (utcnow E) (map_of kw ''updated_at'')) (\<lambda>f_updated.
     Inr \<lparr> school_name = f_school_name, school_code = f_school_code,
           SettingsBase.address = f_address, SettingsBase.phone = f_phone,
           SettingsBase.email = f_email, website = f_website, logo = f_logo,
           currency = f_currency, currency_symbol = f_symbol, timezone = f_timezone,
           language = f_language, date_format = f_date_format, time_format = f_time_format,
           Settings.id' = f_id, Settings.updated_at = f_updated \<rparr>)))))))))))))))"

text \<open>\<^verbatim>\<open>Settings(**settings.model_dump())\<close> on a validated \<^verbatim>\<open>SettingsCreate\<close>: its fields, a fresh
  id, the current instant.\<close>

definition new_Settings :: "env \<Rightarrow> SettingsCreate \<Rightarrow> Settings" where
  "new_Settings E sc =
     \<lparr> school_name = school_name sc, school_code = school_code sc,
       SettingsBase.address = SettingsBase.address sc,
       SettingsBase.phone = SettingsBase.phone sc,
       SettingsBase.email = SettingsBase.email sc,
       website = website sc, logo = logo sc, currency = currency sc,
       currency_symbol = currency_symbol sc, timezone = timezone sc,
       language = language sc, date_format = date_format sc, time_format = time_format sc,
       Settings.id' = uuid4 E, Settings.updated_at = utcnow E \<rparr>"

text \<open>\<^verbatim>\<open>model_dump()\<close> of a \<^verbatim>\<open>Settings\<close> with \<^verbatim>\<open>updated_at\<close> as ISO text: the stored document.\<close>

definition Settings_doc :: "env \<Rightarrow> Settings \<Rightarrow> pydict" where
  "Settings_doc E s =
     [(''school_name'', PStr (school_name s)), (''school_code'', opt_str (school_code s)),
      (''address'', opt_str (SettingsBase.address s)),
      (''phone'', opt_str (SettingsBase.phone s)),
      (''email'', opt_str (SettingsBase.email s)),
      (''website'', opt_str (website s)), (''logo'', opt_str (logo s)),
      (''currency'', PStr (currency s)), (''currency_symbol'', PStr (currency_symbol s)),
      (''timezone'', PStr (timezone s)), (''language'', PStr (language s)),
      (''date_format'', PStr (date_format s)), (''time_format'', PStr (time_format s)),
      (''id'', PStr (Settings.id' s)),
      (''updated_at'', PStr (isoformat E (Settings.updated_at s)))]"

text \<open>\<^verbatim>\<open>POST /settings\<close>, admin only: every settings document is deleted, then the new one
  inserted.\<close>

definition create_settings ::
    "env \<Rightarrow> database \<Rightarrow> string \<Rightarrow> SettingsCreate \<Rightarrow> database \<times> (exn + Settings)" where
  "create_settings E db token settings_create =
     (case require_role [ADMIN] E db token of
        Inl e \<Rightarrow> (db, Inl e)
      | Inr current_user \<Rightarrow>
          (let settings_obj = new_Settings E settings_create;
               doc = Settings_doc E settings_obj
           in (db\<lparr>settings := insert_one [] doc\<rparr>, Inr settings_obj)))"

text \<open>\<^verbatim>\<open>GET /settings\<close>: the handler has no dependency, so it takes no token.\<close>

definition get_settings :: "env \<Rightarrow> database \<Rightarrow> exn + Settings" where
  "get_settings E db =
     (case find_one (settings db) [] [''_id''] of
        None \<Rightarrow> Settings_of E [(''school_name'', PStr ''School Management System'')]
      | Some s \<Rightarrow>
          (if s = [] then Settings_of E [(''school_name'', PStr ''School Management System'')]
           else
             (case parse_timestamp E ''updated_at'' s of
                Inl e \<Rightarrow> Inl e
              | Inr s' \<Rightarrow> Settings_of E s')))"

section \<open>Stored identities\<close>

text \<open>\<open>timestamp_view\<close> is the instant the handlers make of a timestamp field of a stored
  document: the default factory's instant when the field is absent, what \<^verbatim>\<open>fromisoformat\<close>
  reads when it is text, and what the \<^verbatim>\<open>datetime\<close> validator makes of any other value.\<close>

fun timestamp_view :: "env \<Rightarrow> pyval option \<Rightarrow> datetime option" where
  "timestamp_view E None = Some (utcnow E)"
| "timestamp_view E (Some (PStr s)) = fromisoformat E s"
| "timestamp_view E (Some v) = datetime_default E (utcnow E) (Some v)"

text \<open>A stored document is an identity of the data model when every field is one the
  \<^verbatim>\<open>User\<close> validators accept and \<^verbatim>\<open>password_hash\<close> is a string. \<^verbatim>\<open>register\<close> writes such
  documents; \<^verbatim>\<open>update_user\<close> can turn one into a document that is not.\<close>

definition stored_user_ok :: "env \<Rightarrow> pydict \<Rightarrow> bool" where
  "stored_user_ok E d \<longleftrightarrow>
     str_required (map_of d ''username'') \<noteq> None \<and>
     email_required E (map_of d ''email'') \<noteq> None \<and>
     str_required (map_of d ''name'') \<noteq> None \<and>
     role_required (map_of d ''role'') \<noteq> None \<and>
     str_optional (map_of d ''phone'') \<noteq> None \<and>
     str_optional (map_of d ''address'') \<noteq> None \<and>
     str_optional (map_of d ''photo'') \<noteq> None \<and>
     bool_default E True (map_of d ''is_active'') \<noteq> None \<and>
     str_default (uuid4 E) (map_of d ''id'') \<noteq> None \<and>
     timestamp_view E (map_of d ''created_at'') \<noteq> None \<and>
     timestamp_view E (map_of d ''updated_at'') \<noteq> None \<and>
     str_required (map_of d ''password_hash'') \<noteq> None"

definition store_ok :: "env \<Rightarrow> database \<Rightarrow> bool" where
  "store_ok E db \<longleftrightarrow> list_all (stored_user_ok E) (users db)"

text \<open>\<open>identity_of_doc E d u\<close>: the \<^verbatim>\<open>User\<close> \<open>u\<close> carries, field by field, what document \<open>d\<close>
  stores.\<close>

definition identity_of_doc :: "env \<Rightarrow> pydict \<Rightarrow> User \<Rightarrow> bool" where
  "identity_of_doc E d u \<longleftrightarrow>
     str_required (map_of d ''username'') = Some (username u) \<and>
     email_required E (map_of d ''email'') = Some (email u) \<and>
     str_required (map_of d ''name'') = Some (name u) \<and>
     role_required (map_of d ''role'') = Some (role u) \<and>
     str_optional (map_of d ''phone'') = Some (phone u) \<and>
     str_optional (map_of d ''address'') = Some (address u) \<and>
     str_optional (map_of d ''photo'') = Some (photo u) \<and>
     bool_default E True (map_of d ''is_active'') = Some (is_active u) \<and>
     str_default (uuid4 E) (map_of d ''id'') = Some (id' u) \<and>
     timestamp_view E (map_of d ''created_at'') = Some (created_at u) \<and>
     timestamp_view E (map_of d ''updated_at'') = Some (updated_at u)"

text \<open>What the response model serialises of a \<^verbatim>\<open>User\<close>: its eleven declared fields.\<close>

definition User_dump :: "env \<Rightarrow> User \<Rightarrow> pydict" where
  "User_dump E u =
     [(''username'', PStr (username u)), (''email'', PStr (email u)),
      (''name'', PStr (name u)), (''role'', PStr (UserRole_value (role u))),
      (''phone'', opt_str (phone u)), (''address'', opt_str (address u)),
      (''photo'', opt_str (photo u)), (''is_active'', PBool (is_active u)),
      (''id'', PStr (id' u)), (''created_at'', PStr (isoformat E (created_at u))),
      (''updated_at'', PStr (isoformat E (updated_at u)))]"

section \<open>Sequences of requests\<close>

text \<open>The requests of the authentication core and of user management that this
  development follows, each with the arguments its handler takes (the bearer token first,
  where the route depends on identity resolution).\<close>

datatype request =
    Register UserCreate
  | Login UserLogin
  | GetMe string
  | GetUsers string "UserRole option"
  | GetUser string string
  | UpdateUser string string pydict

text \<open>The store after one request; only \<^verbatim>\<open>register\<close> and \<^verbatim>\<open>update_user\<close> write.\<close>

fun handle :: "env \<Rightarrow> database \<Rightarrow> request \<Rightarrow> database" where
  "handle E db (Register user_create) = fst (register E db user_create)"
| "handle E db (Login user_login) = db"
| "handle E db (GetMe token) = db"
| "handle E db (GetUsers token role_param) = db"
| "handle E db (GetUser token user_id) = db"
| "handle E db (UpdateUser token user_id updates) = fst (update_user E db token user_id updates)"

text \<open>Requests handled one after the other, each under the environment of its own moment
  (its clock reading, its fresh id).\<close>

fun run :: "database \<Rightarrow> (env \<times> request) list \<Rightarrow> database" where
  "run db [] = db"
| "run db ((E, r) # rest) = run (handle E db r) rest"

text \<open>Whether a request is a user update whose payload names the given field.\<close>

fun names_field :: "string \<Rightarrow> request \<Rightarrow> bool" where
  "names_field k (UpdateUser token user_id updates) = (k \<in> fst ` set updates)"
| "names_field k r = False"

fun none_names_field :: "string \<Rightarrow> (env \<times> request) list \<Rightarrow> bool" where
  "none_names_field k [] = True"
| "none_names_field k ((E, r) # rest) = (\<not> names_field k r \<and> none_names_field k rest)"

text \<open>One field of every stored user document, in store order.\<close>

definition field_column :: "string \<Rightarrow> database \<Rightarrow> pyval option list" where
  "field_column k db = map (\<lambda>d. map_of d k) (users db)"

text \<open>The store with the field \<^verbatim>\<open>password_hash\<close> erased from every user document.\<close>

definition redact :: "database \<Rightarrow> database" where
  "redact db = db\<lparr>users := map (exclude [''password_hash'']) (users db)\<rparr>"

section \<open>A concrete environment and store\<close>

text \<open>One instance of the environment and a three-user store, for evaluating the handlers
  on concrete requests. The hash of \<open>p\<close> is \<open>h:p\<close>, the token of subject \<open>s\<close> is \<open>tok:s\<close>,
  and the only instant is \<open>0\<close>, written \<open>1970-01-01T00:00:00+00:00\<close>. An address with an
  \<open>@\<close> is accepted as it is (the addresses used here are lower-case, their own normal form);
  the bool table holds the entries \<open>0\<close>, \<open>1\<close>, \<open>no\<close>, \<open>false\<close>, \<open>yes\<close>, \<open>true\<close>.\<close>

definition sample_env :: env where
  "sample_env =
     \<lparr> get_password_hash = (\<lambda>p. ''h:'' @ p),
       verify_password = (\<lambda>p h. h = ''h:'' @ p),
       create_access_token =
         (\<lambda>data. case map_of data ''sub'' of Some (PStr s) \<Rightarrow> ''tok:'' @ s | _ \<Rightarrow> ''tok:''),
       decode_access_token =
         (\<lambda>t. if take 4 t = ''tok:'' then Some [(''sub'', PStr (drop 4 t))] else None),
       fromisoformat = (\<lambda>s. if s = ''1970-01-01T00:00:00+00:00'' then Some 0 else None),
       isoformat = (\<lambda>t. ''1970-01-01T00:00:00+00:00''),
       validate_email = (\<lambda>s. if CHR ''@'' \<in> set s then Some s else None),
       coerce_bool =
         (\<lambda>v. if v = PInt 0 \<or> v = PStr ''no'' \<or> v = PStr ''false'' then Some False
              else if v = PInt 1 \<or> v = PStr ''yes'' \<or> v = PStr ''true'' then Some True
              else None),
       coerce_datetime = (\<lambda>v. if v = PInt 0 then Some 0 else None),
       uuid4 = ''id-new'',
       utcnow = 0 \<rparr>"

definition sample_doc :: "string \<Rightarrow> string \<Rightarrow> string \<Rightarrow> bool \<Rightarrow> string \<Rightarrow> pydict" where
  "sample_doc uname r ident active pw =
     [(''username'', PStr uname), (''email'', PStr (uname @ ''@x.com'')),
      (''name'', PStr uname), (''role'', PStr r),
      (''phone'', PNone), (''address'', PNone), (''photo'', PNone),
      (''is_active'', PBool active), (''id'', PStr ident),
      (''created_at'', PStr ''1970-01-01T00:00:00+00:00''),
      (''updated_at'', PStr ''1970-01-01T00:00:00+00:00''),
      (''password_hash'', PStr (''h:'' @ pw))]"

definition sample_db :: database where
  "sample_db =
     \<lparr> users =
         [sample_doc ''alice'' ''teacher'' ''id-a'' True ''secret123'',
          sample_doc ''root'' ''admin'' ''id-r'' True ''toor'',
          sample_doc ''carol'' ''student'' ''id-c'' False ''pw''],
       settings = [] \<rparr>"

definition sample_user :: "string \<Rightarrow> UserRole \<Rightarrow> string \<Rightarrow> bool \<Rightarrow> User" where
  "sample_user uname r ident active =
     \<lparr> username = uname, email = uname @ ''@x.com'', name = uname, role = r,
       phone = None, address = None, photo = None, is_active = active,
       id' = ident, created_at = 0, updated_at = 0 \<rparr>"

text \<open>A sequence of requests none of which names \<^verbatim>\<open>role\<close> in an update payload.\<close>

definition sample_requests :: "(env \<times> request) list" where
  "sample_requests =
     [(sample_env, UpdateUser ''tok:alice'' ''id-a'' [(''name'', PStr ''Al'')]),
      (sample_env, Login \<lparr>login_username = ''alice'', login_password = ''secret123''\<rparr>),
      (sample_env, Register \<lparr> username = ''dave'', email = ''dave@x.com'', name = ''Dave'',
          role = PARENT, phone = None, address = None, photo = None, is_active = True,
          password = ''pw4'' \<rparr>)]"

text \<open>Settings an administrator might post.\<close>

definition sample_settings :: SettingsCreate where
  "sample_settings =
     \<lparr> school_name = ''Hill School'', school_code = None,
       SettingsBase.address = None, SettingsBase.phone = None,
       SettingsBase.email = Some ''office@hill.org'', website = None, logo = None,
       currency = ''EUR'', currency_symbol = ''E'', timezone = ''UTC'',
       language = ''en'', date_format = ''YYYY-MM-DD'', time_format = ''HH:mm'' \<rparr>"

section \<open>Evaluation on the concrete store\<close>

lemmas sample_defs =
  sample_env_def sample_db_def sample_doc_def sample_user_def

lemmas store_defs =
  find_one_def find_many_def matches_def exclude_def insert_one_def set_fields_def

lemmas load_defs =
  load_User_def parse_timestamps_def parse_timestamp_def User_of_def UserRole_of_value_def

lemma resolve_alice:
  "get_current_user sample_env sample_db ''tok:alice''
     = Inr (sample_user ''alice'' TEACHER ''id-a'' True)"
  by (simp add: get_current_user_def sample_defs store_defs load_defs)

lemma resolve_root:
  "get_current_user sample_env sample_db ''tok:root''
     = Inr (sample_user ''root'' ADMIN ''id-r'' True)"
  by (simp add: get_current_user_def sample_defs store_defs load_defs)

lemma resolve_carol:
  "get_current_user sample_env sample_db ''tok:carol''
     = Inr (sample_user ''carol'' STUDENT ''id-c'' False)"
  by (simp add: get_current_user_def sample_defs store_defs load_defs)

section \<open>Reading a stored identity\<close>

lemma map_of_exclude: "map_of (exclude ks d) k = (if k \<in> set ks then None else map_of d k)"
  by (induction d) (auto simp: exclude_def)

lemma map_of_drop_key:
  "map_of (filter (\<lambda>(k, v). k \<noteq> h) d) k = (if k = h then None else map_of d k)"
  by (induction d) auto

lemma keys_exclude: "fst ` set (exclude ks d) = fst ` set d - set ks"
  by (auto simp: exclude_def image_iff)

lemma validated_Inr: "(validated x k = Inr u) = (\<exists>y. x = Some y \<and> k y = Inr u)"
  by (cases x) auto

lemma User_of_Inr:
  "(User_of E kw = Inr u) =
     (str_required (map_of kw ''username'') = Some (username u) \<and>
      email_required E (map_of kw ''email'') = Some (email u) \<and>
      str_required (map_of kw ''name'') = Some (name u) \<and>
      role_required (map_of kw ''role'') = Some (role u) \<and>
      str_optional (map_of kw ''phone'') = Some (phone u) \<and>
      str_optional (map_of kw ''address'') = Some (address u) \<and>
      str_optional (map_of kw ''photo'') = Some (photo u) \<and>
      bool_default E True (map_of kw ''is_active'') = Some (is_active u) \<and>
      str_default (uuid4 E) (map_of kw ''id'') = Some (id' u) \<and>
      datetime_default E (utcnow E) (map_of kw ''created_at'') = Some (created_at u) \<and>
      datetime_default E (utcnow E) (map_of kw ''updated_at'') = Some (updated_at u))"
  unfolding User_of_def validated_Inr
  by (cases u) auto

lemma parse_timestamp_view:
  assumes "timestamp_view E (map_of d k) = Some t"
  shows "\<exists>d'. parse_timestamp E k d = Inr d'
            \<and> (\<forall>k'. k' \<noteq> k \<longrightarrow> map_of d' k' = map_of d k')
            \<and> datetime_default E (utcnow E) (map_of d' k) = Some t"
proof (cases "map_of d k")
  case None
  with assms show ?thesis by (simp add: parse_timestamp_def)
next
  case (Some v)
  with assms show ?thesis
    by (cases v) (simp_all add: parse_timestamp_def update_conv')
qed

lemma parse_timestamps_view:
  assumes c: "timestamp_view E (map_of d ''created_at'') = Some tc"
    and u: "timestamp_view E (map_of d ''updated_at'') = Some tu"
  shows "\<exists>d2. parse_timestamps E d = Inr d2
            \<and> (\<forall>k. k \<noteq> ''created_at'' \<and> k \<noteq> ''updated_at'' \<longrightarrow> map_of d2 k = map_of d k)
            \<and> datetime_default E (utcnow E) (map_of d2 ''created_at'') = Some tc
            \<and> datetime_default E (utcnow E) (map_of d2 ''updated_at'') = Some tu"
proof -
  from parse_timestamp_view [OF c] obtain d1 where
    p1: "parse_timestamp E ''created_at'' d = Inr d1"
    and same1: "\<forall>k'. k' \<noteq> ''created_at'' \<longrightarrow> map_of d1 k' = map_of d k'"
    and c1: "datetime_default E (utcnow E) (map_of d1 ''created_at'') = Some tc"
    by blast
  from same1 u have "timestamp_view E (map_of d1 ''updated_at'') = Some tu" by simp
  from parse_timestamp_view [OF this] obtain d2 where
    p2: "parse_timestamp E ''updated_at'' d1 = Inr d2"
    and same2: "\<forall>k'. k' \<noteq> ''updated_at'' \<longrightarrow> map_of d2 k' = map_of d1 k'"
    and u2: "datetime_default E (utcnow E) (map_of d2 ''updated_at'') = Some tu"
    by blast
  have "parse_timestamps E d = Inr d2" by (simp add: parse_timestamps_def p1 p2)
  moreover have "\<forall>k. k \<noteq> ''created_at'' \<and> k \<noteq> ''updated_at'' \<longrightarrow> map_of d2 k = map_of d k"
    using same1 same2 by simp
  moreover have "datetime_default E (utcnow E) (map_of d2 ''created_at'') = Some tc"
    using same2 c1 by simp
  ultimately show ?thesis using u2 by blast
qed

lemma identity_exists:
  assumes "stored_user_ok E d"
  shows "\<exists>u. identity_of_doc E d u"
proof -
  from assms obtain a b c r p q s act i tc tu where
    "str_required (map_of d ''username'') = Some a"
    "email_required E (map_of d ''email'') = Some b"
    "str_required (map_of d ''name'') = Some c"
    "role_required (map_of d ''role'') = Some r"
    "str_optional (map_of d ''phone'') = Some p"
    "str_optional (map_of d ''address'') = Some q"
    "str_optional (map_of d ''photo'') = Some s"
    "bool_default E True (map_of d ''is_active'') = Some act"
    "str_default (uuid4 E) (map_of d ''id'') = Some i"
    "timestamp_view E (map_of d ''created_at'') = Some tc"
    "timestamp_view E (map_of d ''updated_at'') = Some tu"
    unfolding stored_user_ok_def by blast
  then have "identity_of_doc E d
      \<lparr> username = a, email = b, name = c, role = r, phone = p, address = q, photo = s,
        is_active = act, id' = i, created_at = tc, updated_at = tu \<rparr>"
    by (simp add: identity_of_doc_def)
  then show ?thesis ..
qed

lemma identity_unique:
  "identity_of_doc E d u \<Longrightarrow> identity_of_doc E d u' \<Longrightarrow> u = u'"
  by (cases u, cases u') (simp add: identity_of_doc_def)

lemma load_kwargs:
  assumes idn: "identity_of_doc E d u"
    and agree: "\<forall>k. k \<noteq> ''password_hash'' \<and> k \<noteq> ''_id'' \<longrightarrow> map_of kw k = map_of d k"
  shows "load_User E kw = Inr u"
proof -
  have c: "timestamp_view E (map_of kw ''created_at'') = Some (created_at u)"
    and up: "timestamp_view E (map_of kw ''updated_at'') = Some (updated_at u)"
    using idn agree by (simp_all add: identity_of_doc_def)
  from parse_timestamps_view [OF c up] obtain d2 where
    p: "parse_timestamps E kw = Inr d2"
    and same: "\<forall>k. k \<noteq> ''created_at'' \<and> k \<noteq> ''updated_at'' \<longrightarrow> map_of d2 k = map_of kw k"
    and tc: "datetime_default E (utcnow E) (map_of d2 ''created_at'') = Some (created_at u)"
    and tu: "datetime_default E (utcnow E) (map_of d2 ''updated_at'') = Some (updated_at u)"
    by blast
  have "User_of E d2 = Inr u"
    unfolding User_of_Inr using idn agree same tc tu by (simp add: identity_of_doc_def)
  with p show ?thesis by (simp add: load_User_def)
qed

lemma load_projection:
  assumes "identity_of_doc E d u"
  shows "load_User E (exclude [''_id'', ''password_hash''] d) = Inr u"
  using assms by (rule load_kwargs) (simp add: map_of_exclude)

section \<open>Role authorization policy\<close>

text \<open>C3. For every authenticated identity and every list of allowed roles, the role check
  denies with 403 exactly when the identity's role is not among the allowed roles, and
  otherwise hands the identity on unchanged. Checked against \<open>[ADMIN]\<close>, any identity with
  role \<open>TEACHER\<close> is denied and any identity with role \<open>ADMIN\<close> is allowed. Composed behind
  identity resolution (the gate of \<^verbatim>\<open>get_users\<close>), a resolved identity is denied on the same
  condition.\<close>

theorem role_checker_denies_iff:
  "(role_checker allowed_roles u = Inl (HTTPException 403 ''Not enough permissions''))
     = (role u \<notin> set allowed_roles)
   \<and> (role_checker allowed_roles u = Inr u) = (role u \<in> set allowed_roles)
   \<and> role_checker [ADMIN] (u\<lparr>role := TEACHER\<rparr>)
       = Inl (HTTPException 403 ''Not enough permissions'')
   \<and> role_checker [ADMIN] (u\<lparr>role := ADMIN\<rparr>) = Inr (u\<lparr>role := ADMIN\<rparr>)
   \<and> (get_current_user E db token = Inr u \<longrightarrow>
        (require_role allowed_roles E db token
           = Inl (HTTPException 403 ''Not enough permissions''))
        = (role u \<notin> set allowed_roles))"
  by (simp add: role_checker_def require_role_def)

theorem role_checker_denies_iff_witness:
  "role_checker [ADMIN] (sample_user ''alice'' TEACHER ''id-a'' True)
     = Inl (HTTPException 403 ''Not enough permissions'')
   \<and> get_current_user sample_env sample_db ''tok:alice''
       = Inr (sample_user ''alice'' TEACHER ''id-a'' True)
   \<and> require_role [ADMIN] sample_env sample_db ''tok:alice''
       = Inl (HTTPException 403 ''Not enough permissions'')"
  using role_checker_denies_iff
          [of "[ADMIN]" "sample_user ''alice'' TEACHER ''id-a'' True"
              sample_env sample_db "''tok:alice''"]
        resolve_alice
  by (simp add: sample_user_def)

section \<open>Lookups\<close>

lemma sample_store_ok: "store_ok sample_env sample_db"
  by (simp add: store_ok_def stored_user_ok_def sample_defs UserRole_of_value_def)

lemma sample_carol_ok: "stored_user_ok sample_env (sample_doc ''carol'' ''student'' ''id-c'' False ''pw'')"
  by (simp add: stored_user_ok_def sample_defs UserRole_of_value_def)

lemma find_matches: "find (matches q) coll = Some d \<Longrightarrow> matches q d \<and> d \<in> set coll"
  by (auto simp: find_Some_iff)

lemma stored_hash:
  "stored_user_ok E d \<Longrightarrow> \<exists>hash. map_of d ''password_hash'' = Some (PStr hash)"
  unfolding stored_user_ok_def
  by (metis str_required.elims)

lemma login_found:
  assumes f: "find (matches [(''username'', PStr (login_username ul))]) (users db) = Some d"
    and h: "map_of d ''password_hash'' = Some (PStr hash)"
  shows "login E db ul =
     (if \<not> verify_password E (login_password ul) hash
      then Inl (HTTPException 401 ''Incorrect username or password'')
      else if \<not> truthy (get_or (exclude [''_id''] d) ''is_active'' (PBool True))
      then Inl (HTTPException 403 ''User account is inactive'')
      else login_respond E (exclude [''_id''] d))"
proof -
  from find_matches [OF f] have u: "map_of d ''username'' = Some (PStr (login_username ul))"
    by (simp add: matches_def)
  then have "map_of (exclude [''_id''] d) ''username'' \<noteq> None"
    by (simp add: map_of_exclude)
  then have ne: "exclude [''_id''] d \<noteq> []" by auto
  show ?thesis
    using f h ne by (simp add: login_def find_one_def map_of_exclude)
qed

lemma sample_alice_ok:
  "stored_user_ok sample_env (sample_doc ''alice'' ''teacher'' ''id-a'' True ''secret123'')"
  by (simp add: stored_user_ok_def sample_defs UserRole_of_value_def)

lemma find_alice:
  "find (matches [(''username'', PStr ''alice'')]) (users sample_db)
     = Some (sample_doc ''alice'' ''teacher'' ''id-a'' True ''secret123'')"
  by (simp add: sample_defs matches_def)

lemma find_carol:
  "find (matches [(''username'', PStr ''carol'')]) (users sample_db)
     = Some (sample_doc ''carol'' ''student'' ''id-c'' False ''pw'')"
  by (simp add: sample_defs matches_def)

lemma find_nobody:
  "find (matches [(''username'', PStr ''nobody'')]) (users sample_db) = None"
  by (simp add: sample_defs matches_def)

lemma resolve_found:
  assumes "decode_access_token E token = Some payload"
    and "map_of payload ''sub'' = Some sub" and "sub \<noteq> PNone"
    and "find (matches [(''username'', sub)]) (users db) = Some d"
  shows "get_current_user E db token = load_User E (exclude [''_id'', ''password_hash''] d)"
  using assms by (cases sub) (simp_all add: get_current_user_def find_one_def)

section \<open>Updating a user\<close>

lemma parse_timestamp_error: "parse_timestamp E k d = Inl e \<Longrightarrow> e = ValueError"
  by (auto simp: parse_timestamp_def split: option.splits pyval.splits)

lemma validated_error:
  "validated x k = Inl e \<Longrightarrow> e = ValidationError \<or> (\<exists>y. x = Some y \<and> k y = Inl e)"
  by (cases x) auto

lemma User_of_error: "User_of E kw = Inl e \<Longrightarrow> e = ValidationError"
  unfolding User_of_def
  by (auto dest!: validated_error)

lemma load_User_error: "load_User E d = Inl e \<Longrightarrow> status_code e = 500"
  by (auto simp: load_User_def parse_timestamps_def split: sum.splits
      dest: parse_timestamp_error User_of_error)

text \<open>C8. For every user-update request by a resolved identity, the request is rejected with
  403 exactly when the identity's id differs from the target id and the identity does not
  pass the role check for \<open>[ADMIN]\<close>; the store is then left as it was. In every other case
  the request goes on to the store, and whatever it answers is not a 403.\<close>

theorem update_user_permission:
  assumes "get_current_user E db token = Inr current_user"
  shows "((\<exists>e. snd (update_user E db token user_id updates) = Inl e \<and> status_code e = 403)
           = (\<not> (id' current_user = user_id \<or> role_checker [ADMIN] current_user = Inr current_user)))
       \<and> (\<not> (id' current_user = user_id \<or> role_checker [ADMIN] current_user = Inr current_user) \<longrightarrow>
            update_user E db token user_id updates
              = (db, Inl (HTTPException 403 ''Not enough permissions'')))"
proof (cases "id' current_user \<noteq> user_id \<and> role current_user \<noteq> ADMIN")
  case True
  then show ?thesis
    using assms by (simp add: update_user_def role_checker_def)
next
  case False
  have "\<not> (\<exists>e. snd (update_user E db token user_id updates) = Inl e \<and> status_code e = 403)"
    using assms False
    by (auto simp: update_user_def Let_def split: prod.splits option.splits if_splits
        dest: load_User_error)
  with False show ?thesis by (auto simp: role_checker_def)
qed

theorem update_user_permission_witness:
  "get_current_user sample_env sample_db ''tok:alice''
     = Inr (sample_user ''alice'' TEACHER ''id-a'' True)
   \<and> update_user sample_env sample_db ''tok:alice'' ''id-r'' [(''name'', PStr ''Eve'')]
       = (sample_db, Inl (HTTPException 403 ''Not enough permissions''))
   \<and> \<not> (\<exists>e. snd (update_user sample_env sample_db ''tok:alice'' ''id-a''
                     [(''name'', PStr ''Al'')]) = Inl e \<and> status_code e = 403)
   \<and> get_current_user sample_env sample_db ''tok:root''
       = Inr (sample_user ''root'' ADMIN ''id-r'' True)
   \<and> \<not> (\<exists>e. snd (update_user sample_env sample_db ''tok:root'' ''id-a''
                     [(''name'', PStr ''Al'')]) = Inl e \<and> status_code e = 403)"
  using update_user_permission [OF resolve_root, of "''id-a''" "[(''name'', PStr ''Al'')]"]
    resolve_root update_user_permission [OF resolve_alice, of "''id-r''" "[(''name'', PStr ''Eve'')]"]
    update_user_permission [OF resolve_alice, of "''id-a''" "[(''name'', PStr ''Al'')]"]
    resolve_alice
  by (simp add: sample_user_def role_checker_def)

section \<open>Registration\<close>

lemma exclude_nothing: "exclude [] d = d"
  by (simp add: exclude_def)

lemma matched_nonempty: "matches [(k, v)] d \<Longrightarrow> d \<noteq> []"
  by (auto simp: matches_def)

lemma truthy_find_one:
  "truthy_doc (find_one coll [(k, v)] []) = (find (matches [(k, v)]) coll \<noteq> None)"
proof (cases "find (matches [(k, v)]) coll")
  case None
  then show ?thesis by (simp add: find_one_def)
next
  case (Some d)
  with find_matches [OF Some] matched_nonempty [of k v d] show ?thesis
    by (simp add: find_one_def exclude_nothing)
qed

text \<open>C9. Registration fails with 400 "Username already registered" when a stored document
  has the requested username, and otherwise with 400 "Email already registered" when one
  has the requested e-mail; on either failure the store is unchanged. Otherwise exactly one
  document is appended, holding the request's fields and the hash of the password, and the
  answer is the public identity record: the request's fields, the new id and timestamps,
  and no \<^verbatim>\<open>password_hash\<close>.\<close>

theorem register_cases:
  "(find (matches [(''username'', PStr (username uc))]) (users db) \<noteq> None \<longrightarrow>
      register E db uc = (db, Inl (HTTPException 400 ''Username already registered'')))
   \<and> (find (matches [(''username'', PStr (username uc))]) (users db) = None
        \<and> find (matches [(''email'', PStr (email uc))]) (users db) \<noteq> None \<longrightarrow>
      register E db uc = (db, Inl (HTTPException 400 ''Email already registered'')))
   \<and> (find (matches [(''username'', PStr (username uc))]) (users db) = None
        \<and> find (matches [(''email'', PStr (email uc))]) (users db) = None \<longrightarrow>
      register E db uc
        = (db\<lparr>users := users db @
               [UserInDB_doc E (new_UserInDB E uc (get_password_hash E (password uc)))]\<rparr>,
           Inr \<lparr> username = username uc, email = email uc, name = name uc, role = role uc,
                 phone = phone uc, address = address uc, photo = photo uc,
                 is_active = is_active uc, id' = uuid4 E,
                 created_at = utcnow E, updated_at = utcnow E \<rparr>)
      \<and> map_of (UserInDB_doc E (new_UserInDB E uc (get_password_hash E (password uc))))
            ''password_hash'' = Some (PStr (get_password_hash E (password uc)))
      \<and> (\<forall>u. snd (register E db uc) = Inr u \<longrightarrow>
            ''password_hash'' \<notin> fst ` set (User_dump E u)))"
  by (simp add: register_def truthy_find_one Let_def insert_one_def UserInDB_doc_def
      new_UserInDB_def public_User_def User.truncate_def User_dump_def)

lemma find_email_alice:
  "find (matches [(''email'', PStr ''alice@x.com'')]) (users sample_db) \<noteq> None"
  by (simp add: sample_defs matches_def)

theorem register_cases_witness:
  "find (matches [(''username'', PStr ''alice'')]) (users sample_db) \<noteq> None
   \<and> register sample_env sample_db
        \<lparr> username = ''alice'', email = ''a2@x.com'', name = ''Alice'', role = TEACHER,
          phone = None, address = None, photo = None, is_active = True,
          password = ''secret123'' \<rparr>
       = (sample_db, Inl (HTTPException 400 ''Username already registered''))
   \<and> find (matches [(''username'', PStr ''alicia'')]) (users sample_db) = None
   \<and> find (matches [(''email'', PStr ''alice@x.com'')]) (users sample_db) \<noteq> None
   \<and> register sample_env sample_db
        \<lparr> username = ''alicia'', email = ''alice@x.com'', name = ''Alice'', role = TEACHER,
          phone = None, address = None, photo = None, is_active = True,
          password = ''secret123'' \<rparr>
       = (sample_db, Inl (HTTPException 400 ''Email already registered''))
   \<and> find (matches [(''email'', PStr ''dave@x.com'')]) (users sample_db) = None
   \<and> find (matches [(''username'', PStr ''dave'')]) (users sample_db) = None
   \<and> snd (register sample_env sample_db
        \<lparr> username = ''dave'', email = ''dave@x.com'', name = ''Dave'', role = PARENT,
          phone = None, address = None, photo = None, is_active = True,
          password = ''pw4'' \<rparr>)
       = Inr \<lparr> username = ''dave'', email = ''dave@x.com'', name = ''Dave'', role = PARENT,
          phone = None, address = None, photo = None, is_active = True,
          id' = ''id-new'', created_at = 0, updated_at = 0 \<rparr>
   \<and> length (users (fst (register sample_env sample_db
        \<lparr> username = ''dave'', email = ''dave@x.com'', name = ''Dave'', role = PARENT,
          phone = None, address = None, photo = None, is_active = True,
          password = ''pw4'' \<rparr>))) = 4"
proof -
  have n: "find (matches [(''username'', PStr ''alicia'')]) (users sample_db) = None"
      "find (matches [(''email'', PStr ''dave@x.com'')]) (users sample_db) = None"
      "find (matches [(''username'', PStr ''dave'')]) (users sample_db) = None"
    by (simp_all add: sample_defs matches_def)
  have l: "length (users sample_db) = 3" "uuid4 sample_env = ''id-new''" "utcnow sample_env = 0"
    by (simp_all add: sample_defs)
  from register_cases [of "\<lparr> username = ''alice'', email = ''a2@x.com'', name = ''Alice'',
          role = TEACHER, phone = None, address = None, photo = None, is_active = True,
          password = ''secret123'' \<rparr>" sample_db sample_env]
    register_cases [of "\<lparr> username = ''alicia'', email = ''alice@x.com'', name = ''Alice'',
          role = TEACHER, phone = None, address = None, photo = None, is_active = True,
          password = ''secret123'' \<rparr>" sample_db sample_env]
    register_cases [of "\<lparr> username = ''dave'', email = ''dave@x.com'', name = ''Dave'',
          role = PARENT, phone = None, address = None, photo = None, is_active = True,
          password = ''pw4'' \<rparr>" sample_db sample_env]
    find_alice find_email_alice n l
  show ?thesis by simp
qed

section \<open>What a user update writes\<close>

lemma set_fields_other: "k \<notin> fst ` set u \<Longrightarrow> map_of (set_fields u d) k = map_of d k"
  unfolding set_fields_def
  by (induction u arbitrary: d) (auto simp: update_conv')

lemma update_one_column:
  "k \<notin> fst ` set u \<Longrightarrow>
     map (\<lambda>d. map_of d k) (snd (update_one ds q u)) = map (\<lambda>d. map_of d k) ds"
  by (induction ds) (auto simp: set_fields_other split: prod.splits)

lemma keys_prepare_updates:
  "fst ` set (prepare_updates E u) \<subseteq> insert ''updated_at'' (fst ` set u)"
  using dom_delete_subset [of "''password''" u]
  by (auto simp: prepare_updates_def dom_update)

lemma update_user_store:
  "fst (update_user E db token user_id updates) = db
   \<or> fst (update_user E db token user_id updates)
       = db\<lparr>users := snd (update_one (users db) [(''id'', PStr user_id)]
                           (prepare_updates E updates))\<rparr>"
  by (auto simp: update_user_def Let_def split: sum.splits prod.splits option.splits)

lemma update_user_column:
  assumes "k \<notin> fst ` set updates" and "k \<noteq> ''updated_at''"
  shows "field_column k (fst (update_user E db token user_id updates)) = field_column k db"
proof -
  from assms have "k \<notin> fst ` set (prepare_updates E updates)"
    using keys_prepare_updates [of E updates] by auto
  from update_one_column [OF this] update_user_store [of E db token user_id updates]
  show ?thesis by (auto simp: field_column_def)
qed

lemma register_column:
  "prefix (field_column k db) (field_column k (fst (register E db uc)))"
  by (simp add: register_def field_column_def insert_one_def Let_def)

lemma handle_column:
  assumes "\<not> names_field k r" and "k \<noteq> ''updated_at''"
  shows "prefix (field_column k db) (field_column k (handle E db r))"
  using assms by (cases r) (simp_all add: register_column update_user_column)

lemma run_column:
  assumes "none_names_field k reqs" and "k \<noteq> ''updated_at''"
  shows "prefix (field_column k db) (field_column k (run db reqs))"
  using assms
proof (induction reqs arbitrary: db)
  case Nil
  then show ?case by simp
next
  case (Cons a reqs)
  obtain E r where a: "a = (E, r)" by (cases a)
  with Cons.prems have "\<not> names_field k r" and rest: "none_names_field k reqs" by simp_all
  from handle_column [OF this(1) Cons.prems(2)]
  have "prefix (field_column k db) (field_column k (handle E db r))" .
  also from Cons.IH [OF rest Cons.prems(2)]
  have "prefix (field_column k (handle E db r)) (field_column k (run (handle E db r) reqs))" .
  finally show ?case using a by simp
qed

lemma register_appends:
  assumes "register E db0 uc = (db, Inr u)"
  shows "field_column ''role'' db
           = field_column ''role'' db0 @ [Some (PStr (UserRole_value (role uc)))]"
  using assms
  by (auto simp: register_def field_column_def insert_one_def Let_def UserInDB_doc_def
      new_UserInDB_def split: if_splits)

lemma prep_role:
  "prepare_updates sample_env [(''role'', PStr ''admin'')]
     = [(''role'', PStr ''admin''), (''updated_at'', PStr ''1970-01-01T00:00:00+00:00'')]"
  by (simp add: prepare_updates_def sample_env_def)

lemma prep_hash:
  "prepare_updates sample_env [(''password'', PStr ''x''), (''password_hash'', PStr ''h:forged'')]
     = [(''password_hash'', PStr ''h:forged''),
        (''updated_at'', PStr ''1970-01-01T00:00:00+00:00'')]"
  by (simp add: prepare_updates_def sample_env_def)

lemma update_one_role:
  "update_one (users sample_db) [(''id'', PStr ''id-a'')]
      [(''role'', PStr ''admin''), (''updated_at'', PStr ''1970-01-01T00:00:00+00:00'')]
     = (1, [sample_doc ''alice'' ''admin'' ''id-a'' True ''secret123'',
            sample_doc ''root'' ''admin'' ''id-r'' True ''toor'',
            sample_doc ''carol'' ''student'' ''id-c'' False ''pw''])"
  by (simp add: sample_db_def sample_doc_def matches_def set_fields_def)

lemma update_one_hash:
  "update_one (users sample_db) [(''id'', PStr ''id-a'')]
      [(''password_hash'', PStr ''h:forged''),
       (''updated_at'', PStr ''1970-01-01T00:00:00+00:00'')]
     = (1, [sample_doc ''alice'' ''teacher'' ''id-a'' True ''forged'',
            sample_doc ''root'' ''admin'' ''id-r'' True ''toor'',
            sample_doc ''carol'' ''student'' ''id-c'' False ''pw''])"
  by (simp add: sample_db_def sample_doc_def matches_def set_fields_def)

lemma update_role_store:
  "fst (update_user sample_env sample_db ''tok:alice'' ''id-a'' [(''role'', PStr ''admin'')])
     = sample_db\<lparr>users :=
          [sample_doc ''alice'' ''admin'' ''id-a'' True ''secret123'',
           sample_doc ''root'' ''admin'' ''id-r'' True ''toor'',
           sample_doc ''carol'' ''student'' ''id-c'' False ''pw'']\<rparr>"
  by (simp add: update_user_def resolve_alice sample_user_def prep_role update_one_role Let_def
      split: option.splits)

lemma update_hash_store:
  "fst (update_user sample_env sample_db ''tok:alice'' ''id-a''
          [(''password'', PStr ''x''), (''password_hash'', PStr ''h:forged'')])
     = sample_db\<lparr>users :=
          [sample_doc ''alice'' ''teacher'' ''id-a'' True ''forged'',
           sample_doc ''root'' ''admin'' ''id-r'' True ''toor'',
           sample_doc ''carol'' ''student'' ''id-c'' False ''pw'']\<rparr>"
  by (simp add: update_user_def resolve_alice sample_user_def prep_hash update_one_hash Let_def
      split: option.splits)

section \<open>The stored role\<close>

text \<open>C6, as the code has it. A user update whose payload names \<^verbatim>\<open>role\<close> overwrites the stored
  role. Every other request leaves the stored role of every existing identity as it was:
  along any sequence of registrations, logins, reads and user updates in which no update
  payload names \<^verbatim>\<open>role\<close>, the roles stored before the sequence are still stored, in place,
  after it (registrations only append), and an identity registered before the sequence
  still has the role given at its registration.\<close>

theorem role_kept_without_role_key:
  assumes "none_names_field ''role'' reqs"
  shows "prefix (field_column ''role'' db) (field_column ''role'' (run db reqs))
       \<and> (\<forall>E db0 uc u. register E db0 uc = (db, Inr u) \<longrightarrow>
            length (users db0) < length (users (run db reqs))
            \<and> field_column ''role'' (run db reqs) ! length (users db0)
                = Some (PStr (UserRole_value (role uc))))"
proof
  show p: "prefix (field_column ''role'' db) (field_column ''role'' (run db reqs))"
    using assms by (rule run_column) simp
  show "\<forall>E db0 uc u. register E db0 uc = (db, Inr u) \<longrightarrow>
            length (users db0) < length (users (run db reqs))
            \<and> field_column ''role'' (run db reqs) ! length (users db0)
                = Some (PStr (UserRole_value (role uc)))"
  proof (intro allI impI)
    fix E db0 uc u
    assume "register E db0 uc = (db, Inr u)"
    from register_appends [OF this] p obtain zs where z:
      "field_column ''role'' (run db reqs)
         = (field_column ''role'' db0 @ [Some (PStr (UserRole_value (role uc)))]) @ zs"
      by (auto simp: prefix_def)
    then have eq: "field_column ''role'' (run db reqs)
         = field_column ''role'' db0 @ (Some (PStr (UserRole_value (role uc))) # zs)"
      by simp
    have l0: "length (field_column ''role'' db0) = length (users db0)"
      by (simp add: field_column_def)
    have l1: "length (field_column ''role'' (run db reqs)) = length (users (run db reqs))"
      by (simp add: field_column_def)
    have "field_column ''role'' (run db reqs) ! length (field_column ''role'' db0)
            = Some (PStr (UserRole_value (role uc)))"
      unfolding eq by (rule nth_append_length)
    moreover have "length (field_column ''role'' db0)
            < length (field_column ''role'' (run db reqs))"
      unfolding eq by simp
    ultimately show "length (users db0) < length (users (run db reqs))
            \<and> field_column ''role'' (run db reqs) ! length (users db0)
                = Some (PStr (UserRole_value (role uc)))"
      unfolding l0 l1 by simp
  qed
qed

theorem role_kept_without_role_key_witness:
  "none_names_field ''role'' sample_requests
   \<and> prefix (field_column ''role'' sample_db)
        (field_column ''role'' (run sample_db sample_requests))
   \<and> field_column ''role'' sample_db
       = [Some (PStr ''teacher''), Some (PStr ''admin''), Some (PStr ''student'')]"
proof -
  have n: "none_names_field ''role'' sample_requests"
    by (simp add: sample_requests_def)
  have c: "field_column ''role'' sample_db
       = [Some (PStr ''teacher''), Some (PStr ''admin''), Some (PStr ''student'')]"
    by (simp add: field_column_def sample_defs)
  from role_kept_without_role_key [OF n, of sample_db, THEN conjunct1] n c
  show ?thesis by simp
qed

text \<open>The claim as stated fails: alice, a teacher, sends a user update for her own id with
  payload \<^verbatim>\<open>{"role": "admin"}\<close>. Her stored role becomes \<^verbatim>\<open>admin\<close>, and her token then passes
  the role check for \<open>[ADMIN]\<close>.\<close>

theorem role_immutable_counterexample:
  "field_column ''role'' sample_db
     = [Some (PStr ''teacher''), Some (PStr ''admin''), Some (PStr ''student'')]
   \<and> field_column ''role''
        (run sample_db
           [(sample_env, UpdateUser ''tok:alice'' ''id-a'' [(''role'', PStr ''admin'')])])
       = [Some (PStr ''admin''), Some (PStr ''admin''), Some (PStr ''student'')]
   \<and> require_role [ADMIN] sample_env
        (run sample_db
           [(sample_env, UpdateUser ''tok:alice'' ''id-a'' [(''role'', PStr ''admin'')])])
        ''tok:alice''
       = Inr (sample_user ''alice'' ADMIN ''id-a'' True)"
  unfolding run.simps handle.simps update_role_store
  by (simp add: field_column_def require_role_def role_checker_def get_current_user_def
      sample_defs store_defs load_defs)

section \<open>The stored secret\<close>

text \<open>C7 on the code. \<^verbatim>\<open>update_user\<close> removes the key \<^verbatim>\<open>password\<close> from the payload, but the
  stored secret lives under \<^verbatim>\<open>password_hash\<close>, which it passes on to \<^verbatim>\<open>$set\<close>. Alice updates
  her own record with \<^verbatim>\<open>{"password": "x", "password_hash": "h:forged"}\<close>: no field
  \<^verbatim>\<open>password\<close> is stored, her stored hash is replaced, and afterwards the password
  \<^verbatim>\<open>forged\<close> logs her in while her old password is refused.\<close>

theorem update_user_overwrites_password_hash:
  "field_column ''password_hash'' sample_db
     = [Some (PStr ''h:secret123''), Some (PStr ''h:toor''), Some (PStr ''h:pw'')]
   \<and> field_column ''password_hash''
        (fst (update_user sample_env sample_db ''tok:alice'' ''id-a''
               [(''password'', PStr ''x''), (''password_hash'', PStr ''h:forged'')]))
       = [Some (PStr ''h:forged''), Some (PStr ''h:toor''), Some (PStr ''h:pw'')]
   \<and> field_column ''password''
        (fst (update_user sample_env sample_db ''tok:alice'' ''id-a''
               [(''password'', PStr ''x''), (''password_hash'', PStr ''h:forged'')]))
       = [None, None, None]
   \<and> login sample_env
        (fst (update_user sample_env sample_db ''tok:alice'' ''id-a''
               [(''password'', PStr ''x''), (''password_hash'', PStr ''h:forged'')]))
        \<lparr>login_username = ''alice'', login_password = ''forged''\<rparr>
       = Inr \<lparr> access_token = ''tok:alice'', token_type = ''bearer'',
               user = sample_user ''alice'' TEACHER ''id-a'' True \<rparr>
   \<and> login sample_env
        (fst (update_user sample_env sample_db ''tok:alice'' ''id-a''
               [(''password'', PStr ''x''), (''password_hash'', PStr ''h:forged'')]))
        \<lparr>login_username = ''alice'', login_password = ''secret123''\<rparr>
       = Inl (HTTPException 401 ''Incorrect username or password'')"
  unfolding update_hash_store
  by (simp add: field_column_def login_def login_respond_def get_or_def
      sample_defs store_defs load_defs)

section \<open>Responses and the stored secret\<close>

lemma matches_redacted:
  "h \<notin> fst ` set q \<Longrightarrow> matches q (exclude [h] d) = matches q d"
  by (induction q) (auto simp: matches_def map_of_exclude)

lemma exclude_redacted: "h \<in> set ks \<Longrightarrow> exclude ks (exclude [h] d) = exclude ks d"
  by (induction d) (auto simp: exclude_def)

lemma find_one_redacted:
  assumes "h \<in> set proj" and "h \<notin> fst ` set q"
  shows "find_one (map (exclude [h]) coll) q proj = find_one coll q proj"
  using assms
  by (induction coll) (simp_all add: find_one_def matches_redacted exclude_redacted)

lemma find_many_redacted:
  assumes "h \<in> set proj" and "h \<notin> fst ` set q"
  shows "find_many (map (exclude [h]) coll) q proj = find_many coll q proj"
  using assms
  by (induction coll) (simp_all add: find_many_def matches_redacted exclude_redacted)

lemma resolve_redacted: "get_current_user E (redact db) token = get_current_user E db token"
proof (cases "decode_access_token E token")
  case None
  then show ?thesis by (simp add: get_current_user_def)
next
  case (Some payload)
  show ?thesis
  proof (cases "map_of payload ''sub''")
    case None
    with Some show ?thesis by (simp add: get_current_user_def)
  next
    case (Some sub)
    with \<open>decode_access_token E token = Some payload\<close> show ?thesis
      by (cases sub) (simp_all add: get_current_user_def redact_def find_one_redacted)
  qed
qed

lemma get_user_redacted: "get_user E (redact db) token user_id = get_user E db token user_id"
proof -
  have f: "find_one (users (redact db)) [(''id'', PStr user_id)] [''_id'', ''password_hash'']
         = find_one (users db) [(''id'', PStr user_id)] [''_id'', ''password_hash'']"
    by (simp add: redact_def find_one_redacted)
  show ?thesis unfolding get_user_def resolve_redacted f ..
qed

lemma get_users_redacted:
  "get_users E (redact db) token role_param = get_users E db token role_param"
proof -
  let ?q = "case role_param of None \<Rightarrow> [] | Some r \<Rightarrow> [(''role'', PStr (UserRole_value r))]"
  have "''password_hash'' \<notin> fst ` set ?q"
    by (cases role_param) simp_all
  then have f: "find_many (users (redact db)) ?q [''_id'', ''password_hash'']
          = find_many (users db) ?q [''_id'', ''password_hash'']"
    by (simp add: redact_def find_many_redacted)
  show ?thesis
    unfolding get_users_def Let_def require_role_def resolve_redacted f ..
qed

lemma dump_has_no_hash: "''password_hash'' \<notin> fst ` set (User_dump E u)"
  by (simp add: User_dump_def)

lemma login_built_without_hash:
  assumes "login E db ul = Inr t"
  shows "\<exists>kw. ''password_hash'' \<notin> fst ` set kw \<and> User_of E kw = Inr (user t)"
proof -
  from assms obtain d where "login_respond E d = Inr t"
    by (auto simp: login_def split: option.splits if_splits pyval.splits)
  then obtain d2 where "User_of E (filter (\<lambda>(k, v). k \<noteq> ''password_hash'') d2) = Inr (user t)"
    by (auto simp: login_respond_def Let_def split: option.splits sum.splits)
  moreover have "''password_hash'' \<notin> fst ` set (filter (\<lambda>(k, v). k \<noteq> ''password_hash'') d2)"
    by auto
  ultimately show ?thesis by blast
qed

text \<open>C4. No answer of registration, login, self-info, the user list or a user read carries
  the stored secret hash. Each answers with \<^verbatim>\<open>User\<close> records, whose serialised form has no
  field \<^verbatim>\<open>password_hash\<close>; login builds its record from keyword arguments without that key;
  the three reads answer the same on the store with every \<^verbatim>\<open>password_hash\<close> erased, so
  their answers do not depend on the stored hashes; and the answer of registration does
  not depend on the hashing function.\<close>

theorem responses_exclude_password_hash:
  "(\<forall>u. snd (register E db uc) = Inr u \<longrightarrow>
        ''password_hash'' \<notin> fst ` set (User_dump E u))
   \<and> (\<forall>t. login E db ul = Inr t \<longrightarrow>
        ''password_hash'' \<notin> fst ` set (User_dump E (user t))
        \<and> (\<exists>kw. ''password_hash'' \<notin> fst ` set kw \<and> User_of E kw = Inr (user t)))
   \<and> (\<forall>u. get_me E db token = Inr u \<longrightarrow>
        ''password_hash'' \<notin> fst ` set (User_dump E u))
   \<and> (\<forall>us. get_users E db token role_param = Inr us \<longrightarrow>
        (\<forall>u \<in> set us. ''password_hash'' \<notin> fst ` set (User_dump E u)))
   \<and> (\<forall>u. get_user E db token user_id = Inr u \<longrightarrow>
        ''password_hash'' \<notin> fst ` set (User_dump E u))
   \<and> get_me E (redact db) token = get_me E db token
   \<and> get_users E (redact db) token role_param = get_users E db token role_param
   \<and> get_user E (redact db) token user_id = get_user E db token user_id
   \<and> snd (register (E\<lparr>get_password_hash := g\<rparr>) db uc) = snd (register E db uc)"
proof -
  have reg: "snd (register (E\<lparr>get_password_hash := g\<rparr>) db uc) = snd (register E db uc)"
    by (simp add: register_def Let_def new_UserInDB_def public_User_def User.truncate_def)
  have lg: "\<forall>t. login E db ul = Inr t \<longrightarrow>
        ''password_hash'' \<notin> fst ` set (User_dump E (user t))
        \<and> (\<exists>kw. ''password_hash'' \<notin> fst ` set kw \<and> User_of E kw = Inr (user t))"
    using login_built_without_hash [of E db ul] dump_has_no_hash by blast
  show ?thesis
    using reg lg dump_has_no_hash
    by (simp add: get_me_def resolve_redacted get_users_redacted get_user_redacted)
qed

lemma login_alice:
  "login sample_env sample_db \<lparr>login_username = ''alice'', login_password = ''secret123''\<rparr>
     = Inr \<lparr> access_token = ''tok:alice'', token_type = ''bearer'',
             user = sample_user ''alice'' TEACHER ''id-a'' True \<rparr>"
  by (simp add: login_def login_respond_def get_or_def sample_defs store_defs load_defs)

theorem responses_exclude_password_hash_witness:
  "get_me sample_env sample_db ''tok:alice''
     = Inr (sample_user ''alice'' TEACHER ''id-a'' True)
   \<and> ''password_hash'' \<notin> fst ` set (User_dump sample_env (sample_user ''alice'' TEACHER ''id-a'' True))
   \<and> login sample_env sample_db \<lparr>login_username = ''alice'', login_password = ''secret123''\<rparr>
       = Inr \<lparr> access_token = ''tok:alice'', token_type = ''bearer'',
               user = sample_user ''alice'' TEACHER ''id-a'' True \<rparr>
   \<and> (\<exists>kw. ''password_hash'' \<notin> fst ` set kw
          \<and> User_of sample_env kw = Inr (sample_user ''alice'' TEACHER ''id-a'' True))
   \<and> get_me sample_env (redact sample_db) ''tok:alice''
       = Inr (sample_user ''alice'' TEACHER ''id-a'' True)"
proof -
  note t = responses_exclude_password_hash
      [of sample_env sample_db _
          "\<lparr>login_username = ''alice'', login_password = ''secret123''\<rparr>" "''tok:alice''"]
  have me: "get_me sample_env sample_db ''tok:alice''
      = Inr (sample_user ''alice'' TEACHER ''id-a'' True)"
    by (simp add: get_me_def resolve_alice)
  from t [THEN conjunct2, THEN conjunct1, rule_format, OF login_alice]
  have l: "\<exists>kw. ''password_hash'' \<notin> fst ` set kw
          \<and> User_of sample_env kw = Inr (sample_user ''alice'' TEACHER ''id-a'' True)"
    by simp
  from t [THEN conjunct2, THEN conjunct2, THEN conjunct1, rule_format, OF me]
  have d: "''password_hash'' \<notin> fst ` set (User_dump sample_env (sample_user ''alice'' TEACHER ''id-a'' True))" .
  from t [THEN conjunct2, THEN conjunct2, THEN conjunct2, THEN conjunct2, THEN conjunct2,
          THEN conjunct1] me
  have r: "get_me sample_env (redact sample_db) ''tok:alice''
       = Inr (sample_user ''alice'' TEACHER ''id-a'' True)" by simp
  from me d login_alice l r show ?thesis by blast
qed

section \<open>Reading the settings\<close>

lemma Settings_of_error: "Settings_of E kw = Inl e \<Longrightarrow> e = ValidationError"
  unfolding Settings_of_def
  by (auto dest!: validated_error)

lemma default_settings:
  "Settings_of E [(''school_name'', PStr ''School Management System'')]
     = Inr \<lparr> school_name = ''School Management System'', school_code = None,
             SettingsBase.address = None, SettingsBase.phone = None,
             SettingsBase.email = None, website = None, logo = None,
             currency = ''USD'', currency_symbol = ''$'', timezone = ''UTC'',
             language = ''en'', date_format = ''YYYY-MM-DD'', time_format = ''HH:mm'',
             Settings.id' = uuid4 E, Settings.updated_at = utcnow E \<rparr>"
  by (simp add: Settings_of_def)

lemma get_settings_no_http_error: "get_settings E db \<noteq> Inl (HTTPException c m)"
  by (auto simp: get_settings_def default_settings split: option.splits sum.splits
      dest: parse_timestamp_error Settings_of_error)

lemma str_optional_opt_str: "str_optional (Some (opt_str x)) = Some x"
  by (cases x) simp_all

lemma email_optional_opt_str:
  "(\<forall>e. x = Some e \<longrightarrow> validate_email E e = Some e) \<Longrightarrow> email_optional E (Some (opt_str x)) = Some x"
  by (cases x) simp_all

lemma read_back_settings:
  assumes t: "fromisoformat E (isoformat E0 (Settings.updated_at s)) = Some t"
    and e: "\<forall>e. SettingsBase.email s = Some e \<longrightarrow> validate_email E e = Some e"
  shows "get_settings E (db\<lparr>settings := [Settings_doc E0 s]\<rparr>)
           = Inr (s\<lparr>Settings.updated_at := t\<rparr>)"
proof -
  have f: "find_one [Settings_doc E0 s] [] [''_id''] = Some (Settings_doc E0 s)"
    by (simp add: find_one_def matches_def exclude_def Settings_doc_def)
  have ne: "Settings_doc E0 s \<noteq> []"
    by (simp add: Settings_doc_def)
  have p: "parse_timestamp E ''updated_at'' (Settings_doc E0 s)
      = Inr (AList.update ''updated_at'' (PDatetime t) (Settings_doc E0 s))"
    using t by (simp add: parse_timestamp_def Settings_doc_def)
  have v: "Settings_of E (AList.update ''updated_at'' (PDatetime t) (Settings_doc E0 s))
      = Inr (s\<lparr>Settings.updated_at := t\<rparr>)"
    using email_optional_opt_str [OF e]
    by (cases s) (simp add: Settings_of_def Settings_doc_def str_optional_opt_str)
  show ?thesis
    by (simp add: get_settings_def f ne p v)
qed

lemma create_settings_store:
  assumes "create_settings E0 db0 token sc = (db, Inr s)"
  shows "db = db0\<lparr>settings := [Settings_doc E0 s]\<rparr>"
  using assms
  by (auto simp: create_settings_def Let_def insert_one_def split: sum.splits)

text \<open>C10. Reading the settings takes no bearer token and no role: the handler has no token
  argument and never answers with an HTTP error, so never with 401 or 403. When the
  settings collection holds no document it answers with the default settings, whose
  \<^verbatim>\<open>school_name\<close> is "School Management System"; when the collection holds what
  \<^verbatim>\<open>create_settings\<close> wrote, it answers with those settings.\<close>

theorem get_settings_public:
  "(settings db = [] \<longrightarrow>
      get_settings E db
        = Inr \<lparr> school_name = ''School Management System'', school_code = None,
                SettingsBase.address = None, SettingsBase.phone = None,
                SettingsBase.email = None, website = None, logo = None,
                currency = ''USD'', currency_symbol = ''$'', timezone = ''UTC'',
                language = ''en'', date_format = ''YYYY-MM-DD'', time_format = ''HH:mm'',
                Settings.id' = uuid4 E, Settings.updated_at = utcnow E \<rparr>)
   \<and> (\<forall>c m. get_settings E db \<noteq> Inl (HTTPException c m))
   \<and> (\<forall>E0 db0 token sc s t.
         create_settings E0 db0 token sc = (db, Inr s)
         \<and> fromisoformat E (isoformat E0 (Settings.updated_at s)) = Some t
         \<and> (\<forall>e. SettingsBase.email s = Some e \<longrightarrow> validate_email E e = Some e) \<longrightarrow>
         get_settings E db = Inr (s\<lparr>Settings.updated_at := t\<rparr>))"
proof (intro conjI allI impI)
  assume "settings db = []"
  then show "get_settings E db
        = Inr \<lparr> school_name = ''School Management System'', school_code = None,
                SettingsBase.address = None, SettingsBase.phone = None,
                SettingsBase.email = None, website = None, logo = None,
                currency = ''USD'', currency_symbol = ''$'', timezone = ''UTC'',
                language = ''en'', date_format = ''YYYY-MM-DD'', time_format = ''HH:mm'',
                Settings.id' = uuid4 E, Settings.updated_at = utcnow E \<rparr>"
    by (simp add: get_settings_def find_one_def default_settings)
next
  fix c m
  show "get_settings E db \<noteq> Inl (HTTPException c m)"
    by (rule get_settings_no_http_error)
next
  fix E0 db0 token sc s t
  assume a: "create_settings E0 db0 token sc = (db, Inr s)
         \<and> fromisoformat E (isoformat E0 (Settings.updated_at s)) = Some t
         \<and> (\<forall>e. SettingsBase.email s = Some e \<longrightarrow> validate_email E e = Some e)"
  then have "db = db0\<lparr>settings := [Settings_doc E0 s]\<rparr>"
    using create_settings_store by blast
  with a read_back_settings [of E E0 s t db0]
  show "get_settings E db = Inr (s\<lparr>Settings.updated_at := t\<rparr>)" by simp
qed

lemma create_sample_settings:
  "create_settings sample_env sample_db ''tok:root'' sample_settings
     = (sample_db\<lparr>settings := [Settings_doc sample_env (new_Settings sample_env sample_settings)]\<rparr>,
        Inr (new_Settings sample_env sample_settings))"
  by (simp add: create_settings_def require_role_def resolve_root role_checker_def
      sample_user_def insert_one_def Let_def)

theorem get_settings_public_witness:
  "settings sample_db = []
   \<and> (\<exists>s. get_settings sample_env sample_db = Inr s
          \<and> school_name s = ''School Management System'')
   \<and> get_settings sample_env
        (fst (create_settings sample_env sample_db ''tok:root'' sample_settings))
       = Inr (new_Settings sample_env sample_settings)"
proof -
  let ?s = "new_Settings sample_env sample_settings"
  let ?db = "sample_db\<lparr>settings := [Settings_doc sample_env ?s]\<rparr>"
  have e: "settings sample_db = []" by (simp add: sample_db_def)
  have h: "create_settings sample_env sample_db ''tok:root'' sample_settings = (?db, Inr ?s)
      \<and> fromisoformat sample_env (isoformat sample_env (Settings.updated_at ?s)) = Some 0
      \<and> (\<forall>e. SettingsBase.email ?s = Some e \<longrightarrow> validate_email sample_env e = Some e)"
    by (simp add: create_sample_settings)
       (simp add: sample_env_def new_Settings_def sample_settings_def)
  have z: "?s\<lparr>Settings.updated_at := 0\<rparr> = ?s"
    by (simp add: new_Settings_def sample_env_def)
  note d = get_settings_public [of sample_db sample_env, THEN conjunct1, rule_format, OF e]
  note r = get_settings_public [of ?db sample_env, THEN conjunct2, THEN conjunct2,
      rule_format, OF h]
  from d have "\<exists>s. get_settings sample_env sample_db = Inr s
          \<and> school_name s = ''School Management System''" by simp
  moreover from r z have "get_settings sample_env
        (fst (create_settings sample_env sample_db ''tok:root'' sample_settings)) = Inr ?s"
    by (simp add: create_sample_settings)
  ultimately show ?thesis using e by blast
qed

section \<open>Validation of a stored document\<close>

lemma User_of_agree:
  assumes "\<forall>k. k \<noteq> ''password_hash'' \<and> k \<noteq> ''_id'' \<longrightarrow> map_of kw k = map_of kw' k"
  shows "User_of E kw = User_of E kw'"
proof -
  have "map_of kw ''username'' = map_of kw' ''username''"
    "map_of kw ''email'' = map_of kw' ''email''"
    "map_of kw ''name'' = map_of kw' ''name''"
    "map_of kw ''role'' = map_of kw' ''role''"
    "map_of kw ''phone'' = map_of kw' ''phone''"
    "map_of kw ''address'' = map_of kw' ''address''"
    "map_of kw ''photo'' = map_of kw' ''photo''"
    "map_of kw ''is_active'' = map_of kw' ''is_active''"
    "map_of kw ''id'' = map_of kw' ''id''"
    "map_of kw ''created_at'' = map_of kw' ''created_at''"
    "map_of kw ''updated_at'' = map_of kw' ''updated_at''"
    using assms by simp_all
  then show ?thesis unfolding User_of_def by simp
qed

lemma parse_timestamp_agree:
  assumes "\<forall>k. k \<noteq> ''password_hash'' \<and> k \<noteq> ''_id'' \<longrightarrow> map_of kw k = map_of kw' k"
    and "k0 \<noteq> ''password_hash''" and "k0 \<noteq> ''_id''"
  shows "(\<exists>e. parse_timestamp E k0 kw = Inl e \<and> parse_timestamp E k0 kw' = Inl e)
       \<or> (\<exists>d d'. parse_timestamp E k0 kw = Inr d \<and> parse_timestamp E k0 kw' = Inr d'
            \<and> (\<forall>k. k \<noteq> ''password_hash'' \<and> k \<noteq> ''_id'' \<longrightarrow> map_of d k = map_of d' k))"
proof -
  from assms have same: "map_of kw k0 = map_of kw' k0" by simp
  show ?thesis
  proof (cases "map_of kw' k0")
    case None
    with same assms(1) show ?thesis by (simp add: parse_timestamp_def)
  next
    case (Some v)
    with same assms(1) show ?thesis
      by (cases v) (auto simp: parse_timestamp_def update_conv' split: option.splits)
  qed
qed

lemma parse_timestamps_agree:
  assumes "\<forall>k. k \<noteq> ''password_hash'' \<and> k \<noteq> ''_id'' \<longrightarrow> map_of kw k = map_of kw' k"
  shows "(\<exists>e. parse_timestamps E kw = Inl e \<and> parse_timestamps E kw' = Inl e)
       \<or> (\<exists>d d'. parse_timestamps E kw = Inr d \<and> parse_timestamps E kw' = Inr d'
            \<and> (\<forall>k. k \<noteq> ''password_hash'' \<and> k \<noteq> ''_id'' \<longrightarrow> map_of d k = map_of d' k))"
proof -
  from parse_timestamp_agree [OF assms, of "''created_at''" E]
  consider e where "parse_timestamp E ''created_at'' kw = Inl e"
      "parse_timestamp E ''created_at'' kw' = Inl e"
    | d d' where "parse_timestamp E ''created_at'' kw = Inr d"
      "parse_timestamp E ''created_at'' kw' = Inr d'"
      "\<forall>k. k \<noteq> ''password_hash'' \<and> k \<noteq> ''_id'' \<longrightarrow> map_of d k = map_of d' k"
    by auto
  then show ?thesis
  proof cases
    case 1
    then show ?thesis by (simp add: parse_timestamps_def)
  next
    case 2
    from parse_timestamp_agree [OF 2(3), of "''updated_at''" E] 2(1,2)
    show ?thesis by (simp add: parse_timestamps_def)
  qed
qed

lemma parse_timestamp_other:
  "parse_timestamp E k0 kw = Inr d \<Longrightarrow> k \<noteq> k0 \<Longrightarrow> map_of d k = map_of kw k"
  by (auto simp: parse_timestamp_def update_conv' split: option.splits pyval.splits)

lemma parse_timestamps_other:
  assumes "parse_timestamps E kw = Inr d" and "k \<noteq> ''created_at''" and "k \<noteq> ''updated_at''"
  shows "map_of d k = map_of kw k"
proof -
  from assms(1) obtain d1 where a: "parse_timestamp E ''created_at'' kw = Inr d1"
    and b: "parse_timestamp E ''updated_at'' d1 = Inr d"
    by (auto simp: parse_timestamps_def split: sum.splits)
  from parse_timestamp_other [OF b assms(3)] parse_timestamp_other [OF a assms(2)]
  show ?thesis by simp
qed

lemma load_User_fields:
  assumes "load_User E kw = Inr u"
  shows "str_required (map_of kw ''username'') = Some (username u)
       \<and> bool_default E True (map_of kw ''is_active'') = Some (is_active u)
       \<and> role_required (map_of kw ''role'') = Some (role u)
       \<and> str_default (uuid4 E) (map_of kw ''id'') = Some (id' u)"
proof -
  from assms obtain d where p: "parse_timestamps E kw = Inr d" and v: "User_of E d = Inr u"
    by (auto simp: load_User_def split: sum.splits)
  from v [unfolded User_of_Inr] parse_timestamps_other [OF p]
  show ?thesis by simp
qed

text \<open>What \<^verbatim>\<open>login\<close> answers once both guards are passed, in terms of the validation of the
  matched document without \<^verbatim>\<open>_id\<close> and \<^verbatim>\<open>password_hash\<close>.\<close>

lemma login_respond_load:
  assumes "map_of d ''username'' = Some sub"
  shows "login_respond E (exclude [''_id''] d) =
     (case load_User E (exclude [''_id'', ''password_hash''] d) of
        Inl e \<Rightarrow> Inl e
      | Inr u \<Rightarrow> Inr \<lparr> access_token = create_access_token E [(''sub'', sub)],
                       token_type = ''bearer'', user = u \<rparr>)"
proof -
  have un: "map_of (exclude [''_id''] d) ''username'' = Some sub"
    using assms by (simp add: map_of_exclude)
  have "\<forall>k. k \<noteq> ''password_hash'' \<and> k \<noteq> ''_id'' \<longrightarrow>
      map_of (exclude [''_id''] d) k = map_of (exclude [''_id'', ''password_hash''] d) k"
    by (simp add: map_of_exclude)
  from parse_timestamps_agree [OF this, of E]
  consider e where "parse_timestamps E (exclude [''_id''] d) = Inl e"
      "parse_timestamps E (exclude [''_id'', ''password_hash''] d) = Inl e"
    | d1 d2 where "parse_timestamps E (exclude [''_id''] d) = Inr d1"
      "parse_timestamps E (exclude [''_id'', ''password_hash''] d) = Inr d2"
      "\<forall>k. k \<noteq> ''password_hash'' \<and> k \<noteq> ''_id'' \<longrightarrow> map_of d1 k = map_of d2 k"
    by auto
  then show ?thesis
  proof cases
    case 1
    then show ?thesis by (simp add: login_respond_def un load_User_def)
  next
    case 2
    have "User_of E (filter (\<lambda>(k, v). k \<noteq> ''password_hash'') d1) = User_of E d2"
      by (rule User_of_agree) (simp add: map_of_drop_key 2(3))
    with 2(1,2) show ?thesis
      by (simp add: login_respond_def un load_User_def split: sum.splits)
  qed
qed

lemma UserRole_value_inverse: "UserRole_of_value (UserRole_value r) = Some r"
  by (cases r) (simp_all add: UserRole_of_value_def)

text \<open>\<^verbatim>\<open>register\<close> writes stored identities, provided the request's address is in normal form
  (it has passed \<^verbatim>\<open>EmailStr\<close> once) and \<^verbatim>\<open>fromisoformat\<close> reads what \<^verbatim>\<open>isoformat\<close> writes.\<close>

lemma register_writes_ok:
  assumes "validate_email E (email uc) = Some (email uc)"
    and "fromisoformat E (isoformat E0 (utcnow E0)) \<noteq> None"
  shows "stored_user_ok E (UserInDB_doc E0 (new_UserInDB E0 uc h))"
  using assms
  by (cases "phone uc"; cases "address uc"; cases "photo uc")
     (simp_all add: stored_user_ok_def UserInDB_doc_def new_UserInDB_def UserRole_value_inverse)

section \<open>Stores a user update leaves behind\<close>

lemma prep_name:
  "prepare_updates sample_env [(''name'', PInt 5)]
     = [(''name'', PInt 5), (''updated_at'', PStr ''1970-01-01T00:00:00+00:00'')]"
  by (simp add: prepare_updates_def sample_env_def)

lemma prep_active:
  "prepare_updates sample_env [(''is_active'', PStr ''no'')]
     = [(''is_active'', PStr ''no''), (''updated_at'', PStr ''1970-01-01T00:00:00+00:00'')]"
  by (simp add: prepare_updates_def sample_env_def)

lemma update_one_alice_name:
  "update_one (users sample_db) [(''id'', PStr ''id-a'')]
      [(''name'', PInt 5), (''updated_at'', PStr ''1970-01-01T00:00:00+00:00'')]
     = (1, [AList.update ''name'' (PInt 5)
              (sample_doc ''alice'' ''teacher'' ''id-a'' True ''secret123''),
            sample_doc ''root'' ''admin'' ''id-r'' True ''toor'',
            sample_doc ''carol'' ''student'' ''id-c'' False ''pw''])"
  by (simp add: sample_db_def sample_doc_def matches_def set_fields_def)

lemma update_one_alice_active:
  "update_one (users sample_db) [(''id'', PStr ''id-a'')]
      [(''is_active'', PStr ''no''), (''updated_at'', PStr ''1970-01-01T00:00:00+00:00'')]
     = (1, [AList.update ''is_active'' (PStr ''no'')
              (sample_doc ''alice'' ''teacher'' ''id-a'' True ''secret123''),
            sample_doc ''root'' ''admin'' ''id-r'' True ''toor'',
            sample_doc ''carol'' ''student'' ''id-c'' False ''pw''])"
  by (simp add: sample_db_def sample_doc_def matches_def set_fields_def)

lemma update_one_carol_name:
  "update_one (users sample_db) [(''id'', PStr ''id-c'')]
      [(''name'', PInt 5), (''updated_at'', PStr ''1970-01-01T00:00:00+00:00'')]
     = (1, [sample_doc ''alice'' ''teacher'' ''id-a'' True ''secret123'',
            sample_doc ''root'' ''admin'' ''id-r'' True ''toor'',
            AList.update ''name'' (PInt 5)
              (sample_doc ''carol'' ''student'' ''id-c'' False ''pw'')])"
  by (simp add: sample_db_def sample_doc_def matches_def set_fields_def)

lemma alice_name_store:
  "run sample_db [(sample_env, UpdateUser ''tok:alice'' ''id-a'' [(''name'', PInt 5)])]
     = sample_db\<lparr>users :=
          [AList.update ''name'' (PInt 5)
             (sample_doc ''alice'' ''teacher'' ''id-a'' True ''secret123''),
           sample_doc ''root'' ''admin'' ''id-r'' True ''toor'',
           sample_doc ''carol'' ''student'' ''id-c'' False ''pw'']\<rparr>"
  by (simp add: update_user_def resolve_alice sample_user_def prep_name update_one_alice_name
      Let_def split: option.splits)

lemma alice_active_store:
  "run sample_db [(sample_env, UpdateUser ''tok:alice'' ''id-a'' [(''is_active'', PStr ''no'')])]
     = sample_db\<lparr>users :=
          [AList.update ''is_active'' (PStr ''no'')
             (sample_doc ''alice'' ''teacher'' ''id-a'' True ''secret123''),
           sample_doc ''root'' ''admin'' ''id-r'' True ''toor'',
           sample_doc ''carol'' ''student'' ''id-c'' False ''pw'']\<rparr>"
  by (simp add: update_user_def resolve_alice sample_user_def prep_active
      update_one_alice_active Let_def split: option.splits)

lemma carol_name_store:
  "run sample_db [(sample_env, UpdateUser ''tok:carol'' ''id-c'' [(''name'', PInt 5)])]
     = sample_db\<lparr>users :=
          [sample_doc ''alice'' ''teacher'' ''id-a'' True ''secret123'',
           sample_doc ''root'' ''admin'' ''id-r'' True ''toor'',
           AList.update ''name'' (PInt 5)
             (sample_doc ''carol'' ''student'' ''id-c'' False ''pw'')]\<rparr>"
  by (simp add: update_user_def resolve_carol sample_user_def prep_name update_one_carol_name
      Let_def split: option.splits)

section \<open>Identity resolution\<close>

text \<open>C2, as the code has it. For every token string: when decoding fails, 401 "Invalid
  authentication credentials"; when the decoded claims hold no subject (absent or \<^verbatim>\<open>None\<close>),
  the same 401; when no stored document has the subject as its username, 401 "User not
  found"; otherwise the first matching document is read through a projection that leaves
  \<^verbatim>\<open>password_hash\<close> out and is validated as a \<^verbatim>\<open>User\<close>. The answer is what that validation
  gives: the identity, or, for a document the validation rejects, an unhandled error
  (status 500), not one of the 401 answers. For a stored identity of the data model the
  validation succeeds and the identity carries the document's fields.\<close>

theorem get_current_user_outcomes:
  "(decode_access_token E token = None \<longrightarrow>
      get_current_user E db token
        = Inl (HTTPException 401 ''Invalid authentication credentials''))
   \<and> (\<forall>payload. decode_access_token E token = Some payload
         \<and> (map_of payload ''sub'' = None \<or> map_of payload ''sub'' = Some PNone) \<longrightarrow>
      get_current_user E db token
        = Inl (HTTPException 401 ''Invalid authentication credentials''))
   \<and> (\<forall>payload sub. decode_access_token E token = Some payload
         \<and> map_of payload ''sub'' = Some sub \<and> sub \<noteq> PNone
         \<and> find (matches [(''username'', sub)]) (users db) = None \<longrightarrow>
      get_current_user E db token = Inl (HTTPException 401 ''User not found''))
   \<and> (\<forall>payload sub d. decode_access_token E token = Some payload
         \<and> map_of payload ''sub'' = Some sub \<and> sub \<noteq> PNone
         \<and> find (matches [(''username'', sub)]) (users db) = Some d \<longrightarrow>
      get_current_user E db token = load_User E (exclude [''_id'', ''password_hash''] d)
      \<and> ''password_hash'' \<notin> fst ` set (exclude [''_id'', ''password_hash''] d)
      \<and> (\<forall>u. get_current_user E db token = Inr u \<longrightarrow>
            ''password_hash'' \<notin> fst ` set (User_dump E u))
      \<and> (\<forall>e. get_current_user E db token = Inl e \<longrightarrow> status_code e = 500)
      \<and> (stored_user_ok E d \<longrightarrow>
            (\<exists>u. get_current_user E db token = Inr u \<and> identity_of_doc E d u)))"
proof (intro conjI allI impI)
  assume "decode_access_token E token = None"
  then show "get_current_user E db token
        = Inl (HTTPException 401 ''Invalid authentication credentials'')"
    by (simp add: get_current_user_def)
next
  fix payload
  assume "decode_access_token E token = Some payload
         \<and> (map_of payload ''sub'' = None \<or> map_of payload ''sub'' = Some PNone)"
  then show "get_current_user E db token
        = Inl (HTTPException 401 ''Invalid authentication credentials'')"
    by (auto simp: get_current_user_def)
next
  fix payload sub
  assume "decode_access_token E token = Some payload
         \<and> map_of payload ''sub'' = Some sub \<and> sub \<noteq> PNone
         \<and> find (matches [(''username'', sub)]) (users db) = None"
  then show "get_current_user E db token = Inl (HTTPException 401 ''User not found'')"
    by (cases sub) (simp_all add: get_current_user_def find_one_def)
next
  fix payload sub d
  assume a: "decode_access_token E token = Some payload
         \<and> map_of payload ''sub'' = Some sub \<and> sub \<noteq> PNone
         \<and> find (matches [(''username'', sub)]) (users db) = Some d"
  then have r: "get_current_user E db token
      = load_User E (exclude [''_id'', ''password_hash''] d)"
    using resolve_found by blast
  show "get_current_user E db token = load_User E (exclude [''_id'', ''password_hash''] d)"
    by (rule r)
  show "''password_hash'' \<notin> fst ` set (exclude [''_id'', ''password_hash''] d)"
    by (simp add: keys_exclude)
  fix e
  assume "get_current_user E db token = Inl e"
  with r show "status_code e = 500" by (simp add: load_User_error)
next
  fix payload sub d u
  assume "get_current_user E db token = Inr u"
  show "''password_hash'' \<notin> fst ` set (User_dump E u)"
    by (rule dump_has_no_hash)
next
  fix payload sub d
  assume a: "decode_access_token E token = Some payload
         \<and> map_of payload ''sub'' = Some sub \<and> sub \<noteq> PNone
         \<and> find (matches [(''username'', sub)]) (users db) = Some d"
    and ok: "stored_user_ok E d"
  from a have r: "get_current_user E db token
      = load_User E (exclude [''_id'', ''password_hash''] d)"
    using resolve_found by blast
  from identity_exists [OF ok] obtain u where idn: "identity_of_doc E d u" ..
  with r load_projection [OF idn]
  show "\<exists>u. get_current_user E db token = Inr u \<and> identity_of_doc E d u" by auto
qed

theorem get_current_user_outcomes_witness:
  "decode_access_token sample_env ''garbage'' = None
   \<and> get_current_user sample_env sample_db ''garbage''
       = Inl (HTTPException 401 ''Invalid authentication credentials'')
   \<and> find (matches [(''username'', PStr ''nobody'')]) (users sample_db) = None
   \<and> get_current_user sample_env sample_db ''tok:nobody''
       = Inl (HTTPException 401 ''User not found'')
   \<and> find (matches [(''username'', PStr ''alice'')]) (users sample_db)
       = Some (sample_doc ''alice'' ''teacher'' ''id-a'' True ''secret123'')
   \<and> stored_user_ok sample_env (sample_doc ''alice'' ''teacher'' ''id-a'' True ''secret123'')
   \<and> (\<exists>u. get_current_user sample_env sample_db ''tok:alice'' = Inr u
          \<and> identity_of_doc sample_env
               (sample_doc ''alice'' ''teacher'' ''id-a'' True ''secret123'') u)"
proof -
  have g: "decode_access_token sample_env ''garbage'' = None"
    by (simp add: sample_env_def)
  have n: "decode_access_token sample_env ''tok:nobody'' = Some [(''sub'', PStr ''nobody'')]
      \<and> map_of [(''sub'', PStr ''nobody'')] ''sub'' = Some (PStr ''nobody'')
      \<and> PStr ''nobody'' \<noteq> PNone
      \<and> find (matches [(''username'', PStr ''nobody'')]) (users sample_db) = None"
    by (simp add: sample_env_def find_nobody)
  have a: "decode_access_token sample_env ''tok:alice'' = Some [(''sub'', PStr ''alice'')]
      \<and> map_of [(''sub'', PStr ''alice'')] ''sub'' = Some (PStr ''alice'')
      \<and> PStr ''alice'' \<noteq> PNone
      \<and> find (matches [(''username'', PStr ''alice'')]) (users sample_db)
          = Some (sample_doc ''alice'' ''teacher'' ''id-a'' True ''secret123'')"
    by (simp add: sample_env_def find_alice)
  note c1 = get_current_user_outcomes [of sample_env "''garbage''" sample_db,
      THEN conjunct1, rule_format, OF g]
  note c3 = get_current_user_outcomes [of sample_env "''tok:nobody''" sample_db,
      THEN conjunct2, THEN conjunct2, THEN conjunct1, rule_format, OF n]
  note c4 = get_current_user_outcomes [of sample_env "''tok:alice''" sample_db,
      THEN conjunct2, THEN conjunct2, THEN conjunct2, rule_format, OF a]
  from c4 sample_alice_ok
  have "\<exists>u. get_current_user sample_env sample_db ''tok:alice'' = Inr u
          \<and> identity_of_doc sample_env
               (sample_doc ''alice'' ''teacher'' ''id-a'' True ''secret123'') u"
    by blast
  with g n a c1 c3 sample_alice_ok show ?thesis by blast
qed

text \<open>The claim as stated fails. Alice sends a user update for her own id with payload
  \<^verbatim>\<open>{"name": 5}\<close>; \<^verbatim>\<open>$set\<close> stores the number. Her token still decodes and her document is
  still found, but \<^verbatim>\<open>User(**user)\<close> rejects the name, so identity resolution ends in a
  validation error (status 500): neither an identity nor one of the 401 answers.\<close>

theorem get_current_user_counterexample:
  "decode_access_token sample_env ''tok:alice'' = Some [(''sub'', PStr ''alice'')]
   \<and> find (matches [(''username'', PStr ''alice'')])
        (users (run sample_db
           [(sample_env, UpdateUser ''tok:alice'' ''id-a'' [(''name'', PInt 5)])]))
       = Some (AList.update ''name'' (PInt 5)
                 (sample_doc ''alice'' ''teacher'' ''id-a'' True ''secret123''))
   \<and> get_current_user sample_env
        (run sample_db [(sample_env, UpdateUser ''tok:alice'' ''id-a'' [(''name'', PInt 5)])])
        ''tok:alice''
       = Inl ValidationError
   \<and> status_code ValidationError = 500"
  unfolding alice_name_store
  by (simp add: get_current_user_def sample_defs store_defs load_defs)

section \<open>Login\<close>

lemma get_or_projected: "get_or (exclude [''_id''] d) ''is_active'' v = get_or d ''is_active'' v"
  by (simp add: get_or_def map_of_exclude)

lemma login_matched:
  assumes f: "find (matches [(''username'', PStr (login_username ul))]) (users db) = Some d"
    and h: "map_of d ''password_hash'' = Some (PStr hash)"
  shows "login E db ul =
     (if \<not> verify_password E (login_password ul) hash
      then Inl (HTTPException 401 ''Incorrect username or password'')
      else if \<not> truthy (get_or d ''is_active'' (PBool True))
      then Inl (HTTPException 403 ''User account is inactive'')
      else (case load_User E (exclude [''_id'', ''password_hash''] d) of
              Inl e \<Rightarrow> Inl e
            | Inr u \<Rightarrow>
                Inr \<lparr> access_token =
                        create_access_token E [(''sub'', PStr (login_username ul))],
                      token_type = ''bearer'', user = u \<rparr>))"
proof -
  from find_matches [OF f] have "map_of d ''username'' = Some (PStr (login_username ul))"
    by (simp add: matches_def)
  from login_respond_load [OF this, of E] login_found [OF f h, of E]
  show ?thesis by (simp add: get_or_projected)
qed

text \<open>C1, as the code has it. For every login request: when no stored document has the
  given username, or the given password does not verify against the matched document's
  hash (a string), login is rejected with 401 and one and the same message; otherwise,
  when the document's \<^verbatim>\<open>is_active\<close> value is false as Python tests it (\<^verbatim>\<open>False\<close>, \<^verbatim>\<open>None\<close>, \<open>0\<close>,
  the empty string; an absent field counts as true), it is rejected with 403; otherwise the
  token is issued for the username and the document without \<^verbatim>\<open>password_hash\<close> is validated
  as a \<^verbatim>\<open>User\<close>: login answers with the bearer token and that identity, or, for a document
  the validation rejects, with an unhandled error (status 500). The order is lookup,
  verification, active check, token issuance. For a stored identity of the data model the
  validation succeeds and the identity carries the document's fields.\<close>

theorem login_outcomes:
  "(find (matches [(''username'', PStr (login_username ul))]) (users db) = None \<longrightarrow>
      login E db ul = Inl (HTTPException 401 ''Incorrect username or password''))
   \<and> (\<forall>d hash. find (matches [(''username'', PStr (login_username ul))]) (users db) = Some d
          \<and> map_of d ''password_hash'' = Some (PStr hash) \<longrightarrow>
        (\<not> verify_password E (login_password ul) hash \<longrightarrow>
            login E db ul = Inl (HTTPException 401 ''Incorrect username or password''))
        \<and> (verify_password E (login_password ul) hash
              \<and> \<not> truthy (get_or d ''is_active'' (PBool True)) \<longrightarrow>
            login E db ul = Inl (HTTPException 403 ''User account is inactive''))
        \<and> (verify_password E (login_password ul) hash
              \<and> map_of d ''is_active'' = Some (PBool False) \<longrightarrow>
            login E db ul = Inl (HTTPException 403 ''User account is inactive''))
        \<and> (verify_password E (login_password ul) hash
              \<and> truthy (get_or d ''is_active'' (PBool True)) \<longrightarrow>
            login E db ul
              = (case load_User E (exclude [''_id'', ''password_hash''] d) of
                   Inl e \<Rightarrow> Inl e
                 | Inr u \<Rightarrow>
                     Inr \<lparr> access_token =
                             create_access_token E [(''sub'', PStr (login_username ul))],
                           token_type = ''bearer'', user = u \<rparr>)
            \<and> (\<forall>e. login E db ul = Inl e \<longrightarrow> status_code e = 500)
            \<and> (stored_user_ok E d \<longrightarrow>
                  (\<exists>u. login E db ul
                         = Inr \<lparr> access_token =
                                   create_access_token E [(''sub'', PStr (login_username ul))],
                                 token_type = ''bearer'', user = u \<rparr>
                       \<and> identity_of_doc E d u))))"
proof (intro conjI allI impI)
  assume "find (matches [(''username'', PStr (login_username ul))]) (users db) = None"
  then show "login E db ul = Inl (HTTPException 401 ''Incorrect username or password'')"
    by (simp add: login_def find_one_def)
next
  fix d hash
  assume a: "find (matches [(''username'', PStr (login_username ul))]) (users db) = Some d
          \<and> map_of d ''password_hash'' = Some (PStr hash)"
  note lm = login_matched [OF a [THEN conjunct1] a [THEN conjunct2], of E]
  {
    assume "\<not> verify_password E (login_password ul) hash"
    with lm show "login E db ul = Inl (HTTPException 401 ''Incorrect username or password'')"
      by simp
  next
    assume "verify_password E (login_password ul) hash
              \<and> \<not> truthy (get_or d ''is_active'' (PBool True))"
    with lm show "login E db ul = Inl (HTTPException 403 ''User account is inactive'')"
      by simp
  next
    assume "verify_password E (login_password ul) hash
              \<and> map_of d ''is_active'' = Some (PBool False)"
    with lm show "login E db ul = Inl (HTTPException 403 ''User account is inactive'')"
      by (simp add: get_or_def)
  next
    assume v: "verify_password E (login_password ul) hash
              \<and> truthy (get_or d ''is_active'' (PBool True))"
    with lm show r: "login E db ul
              = (case load_User E (exclude [''_id'', ''password_hash''] d) of
                   Inl e \<Rightarrow> Inl e
                 | Inr u \<Rightarrow>
                     Inr \<lparr> access_token =
                             create_access_token E [(''sub'', PStr (login_username ul))],
                           token_type = ''bearer'', user = u \<rparr>)"
      by simp
    {
      fix e
      assume "login E db ul = Inl e"
      with r show "status_code e = 500"
        by (auto split: sum.splits dest: load_User_error)
    next
      assume ok: "stored_user_ok E d"
      from identity_exists [OF ok] obtain u where idn: "identity_of_doc E d u" ..
      with r load_projection [OF idn]
      show "\<exists>u. login E db ul
                         = Inr \<lparr> access_token =
                                   create_access_token E [(''sub'', PStr (login_username ul))],
                                 token_type = ''bearer'', user = u \<rparr>
                       \<and> identity_of_doc E d u"
        by auto
    }
  }
qed

theorem login_outcomes_witness:
  "find (matches [(''username'', PStr ''nobody'')]) (users sample_db) = None
   \<and> login sample_env sample_db \<lparr>login_username = ''nobody'', login_password = ''x''\<rparr>
       = Inl (HTTPException 401 ''Incorrect username or password'')
   \<and> find (matches [(''username'', PStr ''alice'')]) (users sample_db)
       = Some (sample_doc ''alice'' ''teacher'' ''id-a'' True ''secret123'')
   \<and> stored_user_ok sample_env (sample_doc ''alice'' ''teacher'' ''id-a'' True ''secret123'')
   \<and> \<not> verify_password sample_env ''wrong'' ''h:secret123''
   \<and> login sample_env sample_db \<lparr>login_username = ''alice'', login_password = ''wrong''\<rparr>
       = Inl (HTTPException 401 ''Incorrect username or password'')
   \<and> verify_password sample_env ''secret123'' ''h:secret123''
   \<and> (\<exists>u. login sample_env sample_db
              \<lparr>login_username = ''alice'', login_password = ''secret123''\<rparr>
            = Inr \<lparr> access_token = ''tok:alice'', token_type = ''bearer'', user = u \<rparr>
          \<and> identity_of_doc sample_env
               (sample_doc ''alice'' ''teacher'' ''id-a'' True ''secret123'') u)
   \<and> find (matches [(''username'', PStr ''carol'')]) (users sample_db)
       = Some (sample_doc ''carol'' ''student'' ''id-c'' False ''pw'')
   \<and> verify_password sample_env ''pw'' ''h:pw''
   \<and> login sample_env sample_db \<lparr>login_username = ''carol'', login_password = ''pw''\<rparr>
       = Inl (HTTPException 403 ''User account is inactive'')
   \<and> login sample_env sample_db \<lparr>login_username = ''carol'', login_password = ''no''\<rparr>
       = Inl (HTTPException 401 ''Incorrect username or password'')"
proof -
  let ?alice = "sample_doc ''alice'' ''teacher'' ''id-a'' True ''secret123''"
  let ?carol = "sample_doc ''carol'' ''student'' ''id-c'' False ''pw''"
  have ha: "map_of ?alice ''password_hash'' = Some (PStr ''h:secret123'')"
    and aa: "truthy (get_or ?alice ''is_active'' (PBool True))"
    and hc: "map_of ?carol ''password_hash'' = Some (PStr ''h:pw'')"
    and ac: "map_of ?carol ''is_active'' = Some (PBool False)"
    by (simp_all add: sample_doc_def get_or_def)
  have v: "\<not> verify_password sample_env ''wrong'' ''h:secret123''"
      "verify_password sample_env ''secret123'' ''h:secret123''"
      "verify_password sample_env ''pw'' ''h:pw''"
      "\<not> verify_password sample_env ''no'' ''h:pw''"
    by (simp_all add: sample_env_def)
  have tk: "create_access_token sample_env [(''sub'', PStr ''alice'')] = ''tok:alice''"
    by (simp add: sample_env_def)
  note n = login_outcomes [of "\<lparr>login_username = ''nobody'', login_password = ''x''\<rparr>"
      sample_db sample_env, THEN conjunct1, rule_format]
  note a1 = login_outcomes [of "\<lparr>login_username = ''alice'', login_password = ''wrong''\<rparr>"
      sample_db sample_env, THEN conjunct2, rule_format, of ?alice "''h:secret123''"]
  note a2 = login_outcomes [of "\<lparr>login_username = ''alice'', login_password = ''secret123''\<rparr>"
      sample_db sample_env, THEN conjunct2, rule_format, of ?alice "''h:secret123''"]
  note c1 = login_outcomes [of "\<lparr>login_username = ''carol'', login_password = ''pw''\<rparr>"
      sample_db sample_env, THEN conjunct2, rule_format, of ?carol "''h:pw''"]
  note c2 = login_outcomes [of "\<lparr>login_username = ''carol'', login_password = ''no''\<rparr>"
      sample_db sample_env, THEN conjunct2, rule_format, of ?carol "''h:pw''"]
  have "login sample_env sample_db \<lparr>login_username = ''nobody'', login_password = ''x''\<rparr>
       = Inl (HTTPException 401 ''Incorrect username or password'')"
    using n find_nobody by simp
  moreover have "login sample_env sample_db
       \<lparr>login_username = ''alice'', login_password = ''wrong''\<rparr>
       = Inl (HTTPException 401 ''Incorrect username or password'')"
    using a1 find_alice ha v by simp
  moreover have "\<exists>u. login sample_env sample_db
              \<lparr>login_username = ''alice'', login_password = ''secret123''\<rparr>
            = Inr \<lparr> access_token = ''tok:alice'', token_type = ''bearer'', user = u \<rparr>
          \<and> identity_of_doc sample_env ?alice u"
  proof -
    from a2 [simplified] find_alice ha v aa sample_alice_ok obtain u where
      l: "login sample_env sample_db
              \<lparr>login_username = ''alice'', login_password = ''secret123''\<rparr>
            = Inr \<lparr> access_token = create_access_token sample_env [(''sub'', PStr ''alice'')],
                    token_type = ''bearer'', user = u \<rparr>"
      and i: "identity_of_doc sample_env ?alice u"
      by blast
    from l tk have "login sample_env sample_db
              \<lparr>login_username = ''alice'', login_password = ''secret123''\<rparr>
            = Inr \<lparr> access_token = ''tok:alice'', token_type = ''bearer'', user = u \<rparr>"
      by simp
    with i show ?thesis by blast
  qed
  moreover have "login sample_env sample_db
       \<lparr>login_username = ''carol'', login_password = ''pw''\<rparr>
       = Inl (HTTPException 403 ''User account is inactive'')"
    using c1 find_carol hc ac v by simp
  moreover have "login sample_env sample_db
       \<lparr>login_username = ''carol'', login_password = ''no''\<rparr>
       = Inl (HTTPException 401 ''Incorrect username or password'')"
    using c2 find_carol hc v by simp
  ultimately show ?thesis
    using find_nobody find_alice find_carol sample_alice_ok v by blast
qed

text \<open>The claim as stated fails. After alice's own user update with payload
  \<^verbatim>\<open>{"name": 5}\<close>, a login with her username and her password finds her document, verifies
  the password and passes the active check, and then ends in a validation error (status
  500): not a 401, not a 403, not a success. After her own update with payload
  \<^verbatim>\<open>{"is_active": "no"}\<close>, the stored value is a non-empty string and passes the active
  check, so the same login succeeds with a token, while the identity it returns has
  \<^verbatim>\<open>is_active\<close> false.\<close>

theorem login_counterexample:
  "find (matches [(''username'', PStr ''alice'')])
        (users (run sample_db
           [(sample_env, UpdateUser ''tok:alice'' ''id-a'' [(''name'', PInt 5)])]))
       = Some (AList.update ''name'' (PInt 5)
                 (sample_doc ''alice'' ''teacher'' ''id-a'' True ''secret123''))
   \<and> verify_password sample_env ''secret123'' ''h:secret123''
   \<and> login sample_env
        (run sample_db [(sample_env, UpdateUser ''tok:alice'' ''id-a'' [(''name'', PInt 5)])])
        \<lparr>login_username = ''alice'', login_password = ''secret123''\<rparr>
       = Inl ValidationError
   \<and> status_code ValidationError = 500
   \<and> login sample_env
        (run sample_db
           [(sample_env, UpdateUser ''tok:alice'' ''id-a'' [(''is_active'', PStr ''no'')])])
        \<lparr>login_username = ''alice'', login_password = ''secret123''\<rparr>
       = Inr \<lparr> access_token = ''tok:alice'', token_type = ''bearer'',
               user = sample_user ''alice'' TEACHER ''id-a'' False \<rparr>"
  unfolding alice_name_store alice_active_store
  by (simp add: login_def login_respond_def get_or_def sample_defs store_defs load_defs)

section \<open>The active flag\<close>

text \<open>C5, as the code has it. The active flag is checked at login only: identity resolution
  does not read it. For every token that decodes to claims with a subject, when the first
  stored document with that username has its active flag false, identity resolution
  answers what the validation of the projected document gives and never a 403: the
  identity, inactive as stored, or, for a document the validation rejects, an unhandled
  error (status 500). For a stored identity of the data model it succeeds. A login for the
  same document with a password that verifies is rejected with 403.\<close>

theorem inactive_token_outcomes:
  assumes dec: "decode_access_token E token = Some payload"
    and sub: "map_of payload ''sub'' = Some (PStr uname)"
    and fnd: "find (matches [(''username'', PStr uname)]) (users db) = Some d"
    and off: "map_of d ''is_active'' = Some (PBool False)"
  shows "get_current_user E db token = load_User E (exclude [''_id'', ''password_hash''] d)
       \<and> (\<forall>u. get_current_user E db token = Inr u \<longrightarrow> username u = uname \<and> \<not> is_active u)
       \<and> (\<forall>e. get_current_user E db token = Inl e \<longrightarrow> status_code e = 500)
       \<and> (stored_user_ok E d \<longrightarrow>
            (\<exists>u. get_current_user E db token = Inr u
                \<and> identity_of_doc E d u \<and> username u = uname \<and> \<not> is_active u))
       \<and> (\<forall>pw hash. map_of d ''password_hash'' = Some (PStr hash)
             \<and> verify_password E pw hash \<longrightarrow>
            login E db \<lparr>login_username = uname, login_password = pw\<rparr>
              = Inl (HTTPException 403 ''User account is inactive''))"
proof -
  have r: "get_current_user E db token = load_User E (exclude [''_id'', ''password_hash''] d)"
    using resolve_found [OF dec sub _ fnd] by simp
  from find_matches [OF fnd] have un: "map_of d ''username'' = Some (PStr uname)"
    by (simp add: matches_def)
  have flds: "username u = uname \<and> \<not> is_active u" if "get_current_user E db token = Inr u" for u
    using load_User_fields [of E "exclude [''_id'', ''password_hash''] d" u] that r un off
    by (simp add: map_of_exclude)
  have err: "status_code e = 500" if "get_current_user E db token = Inl e" for e
    using that r by (simp add: load_User_error)
  have okc: "\<exists>u. get_current_user E db token = Inr u
                \<and> identity_of_doc E d u \<and> username u = uname \<and> \<not> is_active u"
    if ok: "stored_user_ok E d"
  proof -
    from identity_exists [OF ok] obtain u where idn: "identity_of_doc E d u" ..
    with r load_projection [OF idn] have "get_current_user E db token = Inr u" by simp
    with idn flds show ?thesis by blast
  qed
  have lg: "login E db \<lparr>login_username = uname, login_password = pw\<rparr>
              = Inl (HTTPException 403 ''User account is inactive'')"
    if "map_of d ''password_hash'' = Some (PStr hash) \<and> verify_password E pw hash" for pw hash
  proof -
    have f: "find (matches [(''username'',
                 PStr (login_username \<lparr>login_username = uname, login_password = pw\<rparr>))])
               (users db) = Some d"
      using fnd by simp
    from login_matched [OF f, of hash E] that off show ?thesis
      by (simp add: get_or_def)
  qed
  from r flds err okc lg show ?thesis by blast
qed

theorem inactive_token_outcomes_witness:
  "decode_access_token sample_env ''tok:carol'' = Some [(''sub'', PStr ''carol'')]
   \<and> map_of [(''sub'', PStr ''carol'')] ''sub'' = Some (PStr ''carol'')
   \<and> find (matches [(''username'', PStr ''carol'')]) (users sample_db)
       = Some (sample_doc ''carol'' ''student'' ''id-c'' False ''pw'')
   \<and> stored_user_ok sample_env (sample_doc ''carol'' ''student'' ''id-c'' False ''pw'')
   \<and> map_of (sample_doc ''carol'' ''student'' ''id-c'' False ''pw'') ''is_active''
       = Some (PBool False)
   \<and> (\<exists>u. get_current_user sample_env sample_db ''tok:carol'' = Inr u
          \<and> username u = ''carol'' \<and> \<not> is_active u)
   \<and> login sample_env sample_db \<lparr>login_username = ''carol'', login_password = ''pw''\<rparr>
       = Inl (HTTPException 403 ''User account is inactive'')"
proof -
  let ?carol = "sample_doc ''carol'' ''student'' ''id-c'' False ''pw''"
  have dec: "decode_access_token sample_env ''tok:carol'' = Some [(''sub'', PStr ''carol'')]"
    by (simp add: sample_env_def)
  have sub: "map_of [(''sub'', PStr ''carol'')] ''sub'' = Some (PStr ''carol'')" by simp
  have off: "map_of ?carol ''is_active'' = Some (PBool False)"
    by (simp add: sample_doc_def)
  have hv: "map_of ?carol ''password_hash'' = Some (PStr ''h:pw'')
      \<and> verify_password sample_env ''pw'' ''h:pw''"
    by (simp add: sample_doc_def sample_env_def)
  note t = inactive_token_outcomes [OF dec sub find_carol off]
  from t sample_carol_ok hv dec sub find_carol off
  show ?thesis by blast
qed

text \<open>The claim as stated fails. Carol, whose account is inactive, still holds a token that
  decodes. She sends a user update for her own id with payload \<^verbatim>\<open>{"name": 5}\<close>, which
  identity resolution lets through and \<^verbatim>\<open>$set\<close> stores. From then on her token decodes,
  her document is found with its active flag false, and identity resolution ends in a
  validation error (status 500): it does not succeed.\<close>

theorem inactive_token_counterexample:
  "decode_access_token sample_env ''tok:carol'' = Some [(''sub'', PStr ''carol'')]
   \<and> find (matches [(''username'', PStr ''carol'')])
        (users (run sample_db
           [(sample_env, UpdateUser ''tok:carol'' ''id-c'' [(''name'', PInt 5)])]))
       = Some (AList.update ''name'' (PInt 5)
                 (sample_doc ''carol'' ''student'' ''id-c'' False ''pw''))
   \<and> map_of (AList.update ''name'' (PInt 5)
               (sample_doc ''carol'' ''student'' ''id-c'' False ''pw'')) ''is_active''
       = Some (PBool False)
   \<and> get_current_user sample_env
        (run sample_db [(sample_env, UpdateUser ''tok:carol'' ''id-c'' [(''name'', PInt 5)])])
        ''tok:carol''
       = Inl ValidationError
   \<and> status_code ValidationError = 500"
  unfolding carol_name_store
  by (simp add: get_current_user_def sample_defs store_defs load_defs)

end
